theory Spec2Isabelle
  imports Complex_Main "HOL-Library.AList" "HOL-Library.Log_Nat" "HOL-Library.Word"
begin

section \<open>Python values\<close>

text \<open>
  The module \<^verbatim>\<open>distributed_dp/fl_utils.py\<close> computes with Python numbers, strings and
  \<^verbatim>\<open>None\<close>. A value carries its Python type as a tag. A float is the real number it
  denotes; a float that is \<^verbatim>\<open>inf\<close> or \<^verbatim>\<open>nan\<close> is the separate value \<open>PyNonFinite\<close>. A
  numpy scalar is not told apart from the Python number of the same kind. The rounding
  of float64 is modelled where the dimension is computed (the next section); the
  arithmetic on the privacy parameters is that of the real numbers.
\<close>

datatype pyval =
    PyNone
  | PyInt int
  | PyFloat real
  | PyNonFinite
  | PyStr string

fun py_real :: "pyval \<Rightarrow> real option" where
  "py_real (PyInt i) = Some (real_of_int i)"
| "py_real (PyFloat r) = Some r"
| "py_real _ = None"

fun is_int :: "pyval \<Rightarrow> bool" where
  "is_int (PyInt i) = True"
| "is_int _ = False"

section \<open>Errors\<close>

text \<open>
  An exception is a value. The message of an \<^verbatim>\<open>AssertionError\<close> is an f-string, kept as
  the list of its literal pieces and interpolated values. The specification calls the
  failed assertions \<open>InvalidBudget\<close> and the \<^verbatim>\<open>ValueError\<close> of line 172
  \<open>UnsupportedMechanism\<close>. \<open>AccountingError\<close> stands for any exception raised inside
  \<^verbatim>\<open>accounting_utils\<close>, which \<^verbatim>\<open>build_aggregator\<close> lets through.
\<close>

datatype fmt = Lit string | Val pyval

datatype error =
    AssertionError "fmt list"
  | ValueError string
  | ZeroDivisionError
  | TypeError
  | OverflowError
  | AccountingError

section \<open>Dimension calculator\<close>

text \<open>
  \<^verbatim>\<open>get_total_dim\<close> (lines 27-29): \<^verbatim>\<open>sum(np.prod(x.shape) for x in client_template)\<close>.
  A client template is the list of its tensor shapes, and a shape is the int64 array numpy
  makes of it (an extent of a tensor is an int64). \<^verbatim>\<open>np.prod\<close> multiplies in int64, with
  wrap-around, and gives the float \<open>1.0\<close> for the empty shape. \<^verbatim>\<open>sum\<close> starts from the
  Python int 0 and adds from the left: two int64 add with wrap-around, and as soon as a
  float takes part the sum is a float64.

  Every float this sum can produce has an integer value, so a float64 accumulator is kept
  as that integer. \<open>rnd53\<close> rounds an integer to the nearest float64 (53 significant bits,
  ties to even); it is the conversion of an int64 to float64 and the rounding of a float
  addition. (A float64 is below \<open>2^1024\<close>, which no sum of a list that fits in memory
  reaches.)
\<close>

definition rnd53 :: "int \<Rightarrow> int" where
  "rnd53 i =
     (let m = \<bar>i\<bar> in
      if m < 2 ^ 53 then i
      else
        let e = nat (bitlen m - 53);
            q = m div 2 ^ e;
            r = m mod 2 ^ e;
            q' = (if 2 ^ e < 2 * r \<or> (2 * r = 2 ^ e \<and> odd q) then q + 1 else q)
        in sgn i * (q' * 2 ^ e))"

datatype np_scalar = NpInt "64 word" | NpFloat int

definition np_prod :: "64 word list \<Rightarrow> np_scalar" where
  "np_prod shape = (if shape = [] then NpFloat 1 else NpInt (prod_list shape))"

fun np_add :: "np_scalar \<Rightarrow> np_scalar \<Rightarrow> np_scalar" where
  "np_add (NpInt a) (NpInt b) = NpInt (a + b)"
| "np_add (NpInt a) (NpFloat y) = NpFloat (rnd53 (rnd53 (sint a) + y))"
| "np_add (NpFloat x) (NpInt b) = NpFloat (rnd53 (x + rnd53 (sint b)))"
| "np_add (NpFloat x) (NpFloat y) = NpFloat (rnd53 (x + y))"

fun scalar_value :: "np_scalar \<Rightarrow> pyval" where
  "scalar_value (NpInt a) = PyInt (sint a)"
| "scalar_value (NpFloat x) = PyFloat (real_of_int x)"

definition get_total_dim :: "64 word list list \<Rightarrow> pyval" where
  "get_total_dim client_template =
     scalar_value (foldl np_add (NpInt 0) (map np_prod client_template))"

text \<open>
  \<^verbatim>\<open>pad_dim\<close> (lines 32-33): \<^verbatim>\<open>np.math.pow(2, np.ceil(np.log2(dim)))\<close>.

  \<^verbatim>\<open>np.log2\<close> takes an int from \<open>-2^63\<close> up to \<open>2^64 - 1\<close> as the nearest float64 and
  raises \<^verbatim>\<open>TypeError\<close> for any other int, for \<^verbatim>\<open>None\<close> and for a string. At 0 it gives
  \<^verbatim>\<open>-inf\<close> and below 0 \<^verbatim>\<open>nan\<close> (with a warning, not an exception). At a positive float
  its value is whatever the float64 logarithm of the platform returns: that function is
  the parameter \<open>np_log2\<close> of the model, about which nothing is assumed here.

  \<^verbatim>\<open>np.ceil\<close> is exact. \<^verbatim>\<open>math.pow\<close> returns a Python float: \<open>2^c\<close> exactly for an integer
  \<open>c\<close> from \<open>-1074\<close> to \<open>1023\<close>, \<open>0.0\<close> below, \<^verbatim>\<open>OverflowError\<close> above; \<open>0.0\<close> at \<^verbatim>\<open>-inf\<close>,
  \<^verbatim>\<open>inf\<close> at \<^verbatim>\<open>inf\<close> and \<^verbatim>\<open>nan\<close> at \<^verbatim>\<open>nan\<close>.
\<close>

definition math_pow2 :: "int \<Rightarrow> error + pyval" where
  "math_pow2 c =
     (if 1023 < c then Inl OverflowError
      else if c < - 1074 then Inr (PyFloat 0)
      else Inr (PyFloat (2 powi c)))"

definition pad_float :: "(real \<Rightarrow> real) \<Rightarrow> real \<Rightarrow> error + pyval" where
  "pad_float np_log2 x =
     (if x < 0 then Inr PyNonFinite
      else if x = 0 then Inr (PyFloat 0)
      else math_pow2 \<lceil>np_log2 x\<rceil>)"

fun pad_dim :: "(real \<Rightarrow> real) \<Rightarrow> pyval \<Rightarrow> error + pyval" where
  "pad_dim np_log2 (PyInt i) =
     (if i < - (2 ^ 63) \<or> 2 ^ 64 \<le> i then Inl TypeError
      else pad_float np_log2 (real_of_int (rnd53 i)))"
| "pad_dim np_log2 (PyFloat x) = pad_float np_log2 x"
| "pad_dim np_log2 PyNonFinite = Inr PyNonFinite"
| "pad_dim np_log2 PyNone = Inl TypeError"
| "pad_dim np_log2 (PyStr s) = Inl TypeError"

text \<open>
  What the float64 logarithm must do for \<^verbatim>\<open>pad_dim\<close> to be right on the integers up to
  \<open>2^j\<close>: return \<open>k\<close> at \<open>2^k\<close>, and stay within \<open>2^(-j)\<close> of the logarithm.
\<close>

definition log2_accurate :: "nat \<Rightarrow> (real \<Rightarrow> real) \<Rightarrow> bool" where
  "log2_accurate j lg \<longleftrightarrow>
     (\<forall>k. k \<le> j \<longrightarrow> lg (2 ^ k) = real k)
     \<and> (\<forall>x. 1 \<le> x \<and> x \<le> 2 ^ j \<longrightarrow> \<bar>lg x - log 2 x\<bar> < 1 / 2 ^ j)"

section \<open>Modular clipping stage\<close>

text \<open>
  Modelled from the spec: the module \<^verbatim>\<open>distributed_dp/modular_clipping_factory.py\<close> is
  not among the sources. Section 4.3 of the specification gives the reduction into
  \<open>[lo, hi)\<close> as \<open>((v - lo) mod (hi - lo)) + lo\<close> with floored modulus; \<open>mod\<close> on \<open>int\<close>
  is the floored one.
\<close>

definition modular_reduce :: "int \<Rightarrow> int \<Rightarrow> int \<Rightarrow> int" where
  "modular_reduce lo hi v = (v - lo) mod (hi - lo) + lo"

section \<open>Dictionaries and strings\<close>

text \<open>
  A Python dict keeps insertion order; \<^verbatim>\<open>d.update(e)\<close> overwrites the value of a key
  already present, in place, and appends the others.
\<close>

type_synonym pydict = "(string \<times> pyval) list"

definition dict_update :: "pydict \<Rightarrow> pydict \<Rightarrow> pydict" where
  "dict_update d e = foldl (\<lambda>acc (k, v). AList.update k v acc) d e"

text \<open>
  \<^verbatim>\<open>str.lower()\<close> on ASCII text: the letters \<open>A\<close> to \<open>Z\<close> go to \<open>a\<close> to \<open>z\<close>, every other
  character stays.
\<close>

definition lower_char :: "char \<Rightarrow> char" where
  "lower_char c =
     (case map_of (zip ''ABCDEFGHIJKLMNOPQRSTUVWXYZ'' ''abcdefghijklmnopqrstuvwxyz'') c of
        None \<Rightarrow> c
      | Some l \<Rightarrow> l)"

definition lower :: "string \<Rightarrow> string" where
  "lower s = map lower_char s"

section \<open>Collaborators\<close>

text \<open>
  The privacy accountant \<^verbatim>\<open>distributed_dp/accounting_utils.py\<close> is not among the sources:
  its three functions are parameters of the model, with the arguments in the order of the
  calls at lines 76-80, 102-112 and 117-118. \<open>None\<close> is a call that raises.
\<close>

record accounting_utils =
  get_gauss_noise_multiplier :: "real \<Rightarrow> real \<Rightarrow> real \<Rightarrow> nat \<Rightarrow> real option"
  ddgauss_params ::
    "real \<Rightarrow> real \<Rightarrow> real \<Rightarrow> int \<Rightarrow> nat \<Rightarrow> pyval \<Rightarrow> real \<Rightarrow> real \<Rightarrow> nat \<Rightarrow> real
       \<Rightarrow> (real \<times> real) option"
  rounded_l2_norm_bound :: "real \<Rightarrow> real \<Rightarrow> pyval \<Rightarrow> real option"

text \<open>
  The aggregation stages of \<^verbatim>\<open>tff.aggregators\<close>, \<^verbatim>\<open>modular_clipping_factory\<close> and
  \<^verbatim>\<open>ddpquery_utils\<close> are constructors: a composed aggregator is the term of the calls
  that built it. \<open>UnweightedMeanFactory None\<close> is the call without arguments.
\<close>

datatype ddp_query =
  build_ddp_query
    (q_mechanism: string) (q_local_stddev: real) (q_l2_norm_bound: real) (q_beta: real)
    (q_padded_dim: pyval) (q_scale: real) (q_client_template: "64 word list list")

datatype agg_factory =
    SumFactory
  | UnweightedMeanFactory "agg_factory option"
  | clipping_factory real agg_factory
  | ModularClippingSumFactory pyval pyval agg_factory
  | DifferentiallyPrivateFactory ddp_query agg_factory
  | gaussian_fixed real nat real

text \<open>The stages of a composed aggregator, innermost first.\<close>

datatype stage =
    PlainSum
  | ModularSum pyval pyval
  | DPQuery ddp_query
  | L2Clip real
  | UnweightedMean
  | GaussianFixed real nat real

fun stages :: "agg_factory \<Rightarrow> stage list" where
  "stages SumFactory = [PlainSum]"
| "stages (UnweightedMeanFactory None) = [UnweightedMean]"
| "stages (UnweightedMeanFactory (Some f)) = stages f @ [UnweightedMean]"
| "stages (clipping_factory c f) = stages f @ [L2Clip c]"
| "stages (ModularClippingSumFactory lo hi f) = stages f @ [ModularSum lo hi]"
| "stages (DifferentiallyPrivateFactory q f) = stages f @ [DPQuery q]"
| "stages (gaussian_fixed m n c) = [GaussianFixed m n c]"

section \<open>The flags\<close>

text \<open>
  \<^verbatim>\<open>dp_flags\<close> and \<^verbatim>\<open>compression_flags\<close> are dicts with fixed keys; a float flag that may
  be \<^verbatim>\<open>None\<close> is an option.
\<close>

record dp_flags =
  l2_norm_clip :: "real option"
  epsilon :: "real option"
  delta :: "real option"
  dp_mechanism :: string

record compression_flags =
  k_stddevs :: "real option"
  beta :: real
  num_bits :: int

section \<open>Building the aggregator\<close>

text \<open>Lines 43-49: no DP, clipping when a clip is given.\<close>

definition vanilla_aggregator :: "real option \<Rightarrow> error + agg_factory \<times> pydict" where
  "vanilla_aggregator clip =
     (case clip of
        None \<Rightarrow> Inr (UnweightedMeanFactory None, [(''clip'', PyNone)])
      | Some c \<Rightarrow>
          if c > 0
          then Inr (clipping_factory c (UnweightedMeanFactory None), [(''clip'', PyFloat c)])
          else Inl (AssertionError [Lit ''Norm clip must be positive.'']))"

text \<open>
  Line 100: \<^verbatim>\<open>-(2**(bits - 1)), 2**(bits - 1)\<close>. An int power with a negative exponent is a
  float in Python.
\<close>

definition mod_clip :: "int \<Rightarrow> pyval \<times> pyval" where
  "mod_clip bits =
     (if 1 \<le> bits
      then (PyInt (- (2 ^ nat (bits - 1))), PyInt (2 ^ nat (bits - 1)))
      else (PyFloat (- (2 powi (bits - 1))), PyFloat (2 powi (bits - 1))))"

text \<open>
  A numpy float divided by zero is \<^verbatim>\<open>inf\<close> or \<^verbatim>\<open>nan\<close> with a warning, not an exception.
\<close>

definition np_truediv :: "real \<Rightarrow> real \<Rightarrow> pyval" where
  "np_truediv a b = (if b = 0 then PyNonFinite else PyFloat (a / b))"

text \<open>Line 95: \<^verbatim>\<open>compression_flags['k_stddevs'] or 4\<close>; \<^verbatim>\<open>None\<close> and \<open>0.0\<close> are falsy.\<close>

definition k_stddevs_or_4 :: "real option \<Rightarrow> pyval" where
  "k_stddevs_or_4 k = (case k of None \<Rightarrow> PyInt 4 | Some x \<Rightarrow> if x = 0 then PyInt 4 else PyFloat x)"

definition k_value :: "real option \<Rightarrow> real" where
  "k_value k = (case k of None \<Rightarrow> 4 | Some x \<Rightarrow> if x = 0 then 4 else x)"

text \<open>
  Lines 94-119: the local variables of the \<^verbatim>\<open>ddgauss\<close> branch, in the order the code
  computes them; an exception of \<^verbatim>\<open>pad_dim\<close> comes first. \<^verbatim>\<open>1.0 / gamma\<close> raises at \<^verbatim>\<open>gamma = 0\<close> (the accountant's results are
  taken as Python floats); \<^verbatim>\<open>central_stddev\<close> is a numpy float (\<^verbatim>\<open>np.sqrt\<close>), so the
  last division does not raise.
\<close>

record ddgauss_locals =
  padded_dim :: pyval
  mod_clip_lo :: pyval
  mod_clip_hi :: pyval
  gamma :: real
  local_stddev :: real
  scale :: real
  central_stddev :: real
  noise_mult_clip :: real
  inflated_l2 :: real
  noise_mult_inflated :: pyval

definition ddgauss_derive ::
  "(real \<Rightarrow> real) \<Rightarrow> accounting_utils \<Rightarrow> compression_flags \<Rightarrow> real \<Rightarrow> real \<Rightarrow> real \<Rightarrow> real
     \<Rightarrow> nat \<Rightarrow> nat \<Rightarrow> pyval \<Rightarrow> error + ddgauss_locals"
where
  "ddgauss_derive np_log2 acc cf clip eps dl sampling_rate num_clients_per_round num_rounds dm =
     (case pad_dim np_log2 dm of
        Inl e \<Rightarrow> Inl e
      | Inr pdim \<Rightarrow>
          let k = k_value (k_stddevs cf);
              b = beta cf;
              bits = num_bits cf;
              (lo, hi) = mod_clip bits
          in case ddgauss_params acc sampling_rate eps clip bits num_clients_per_round pdim dl b
                    num_rounds k of
               None \<Rightarrow> Inl AccountingError
             | Some (g, ls) \<Rightarrow>
                 if g = 0 then Inl ZeroDivisionError
                 else
                   let sc = 1 / g;
                       central = ls * sqrt (real num_clients_per_round);
                       nmc = central / clip
                   in case rounded_l2_norm_bound acc (clip * sc) b pdim of
                        None \<Rightarrow> Inl AccountingError
                      | Some r \<Rightarrow>
                          let infl = r / sc
                          in Inr \<lparr>padded_dim = pdim, mod_clip_lo = lo, mod_clip_hi = hi,
                                   gamma = g, local_stddev = ls, scale = sc,
                                   central_stddev = central, noise_mult_clip = nmc,
                                   inflated_l2 = infl,
                                   noise_mult_inflated = np_truediv central infl\<rparr>)"

text \<open>Lines 121-134: \<^verbatim>\<open>discrete_params_dict\<close>.\<close>

definition discrete_params_dict ::
  "compression_flags \<Rightarrow> pyval \<Rightarrow> string \<Rightarrow> ddgauss_locals \<Rightarrow> pydict"
where
  "discrete_params_dict cf dm mechanism d =
     [(''bits'', PyInt (num_bits cf)),
      (''beta'', PyFloat (beta cf)),
      (''dim'', dm),
      (''padded_dim'', padded_dim d),
      (''gamma'', PyFloat (gamma d)),
      (''scale'', PyFloat (scale d)),
      (''k_stddevs'', k_stddevs_or_4 (k_stddevs cf)),
      (''local_stddev'', PyFloat (local_stddev d)),
      (''mechanism'', PyStr mechanism),
      (''inflated_l2'', PyFloat (inflated_l2 d)),
      (''noise_mult_clip'', PyFloat (noise_mult_clip d)),
      (''noise_mult_inflated'', noise_mult_inflated d)]"

text \<open>Lines 140-169: the nested aggregators of the \<^verbatim>\<open>ddgauss\<close> branch.\<close>

definition ddgauss_factory ::
  "compression_flags \<Rightarrow> string \<Rightarrow> real \<Rightarrow> 64 word list list \<Rightarrow> ddgauss_locals
     \<Rightarrow> agg_factory"
where
  "ddgauss_factory cf mechanism clip client_template d =
     (let agg_factory = SumFactory;
          agg_factory = ModularClippingSumFactory (mod_clip_lo d) (mod_clip_hi d) agg_factory;
          ddp_query = build_ddp_query mechanism (local_stddev d) clip (beta cf) (padded_dim d)
                        (scale d) client_template;
          agg_factory = DifferentiallyPrivateFactory ddp_query agg_factory;
          agg_factory = clipping_factory clip agg_factory
      in UnweightedMeanFactory (Some agg_factory))"

text \<open>
  Line 55: \<^verbatim>\<open>dp_flags['delta'] or 1.0 / num_clients\<close>; \<^verbatim>\<open>None\<close> and \<open>0.0\<close> are falsy.
  The caller has already divided by \<^verbatim>\<open>num_clients\<close> at line 54.
\<close>

definition delta_or_default :: "real option \<Rightarrow> nat \<Rightarrow> real" where
  "delta_or_default dlt num_clients =
     (case dlt of
        None \<Rightarrow> 1 / real num_clients
      | Some x \<Rightarrow> if x = 0 then 1 / real num_clients else x)"

text \<open>Lines 59-69: the shared \<^verbatim>\<open>params_dict\<close>.\<close>

definition shared_params_dict ::
  "real \<Rightarrow> real \<Rightarrow> real \<Rightarrow> pyval \<Rightarrow> real \<Rightarrow> string \<Rightarrow> nat \<Rightarrow> nat \<Rightarrow> nat \<Rightarrow> pydict"
where
  "shared_params_dict eps dl clip dm sampling_rate mechanism num_clients num_clients_per_round
       num_rounds =
     [(''epsilon'', PyFloat eps),
      (''delta'', PyFloat dl),
      (''clip'', PyFloat clip),
      (''dim'', dm),
      (''sampling_rate'', PyFloat sampling_rate),
      (''mechanism'', PyStr mechanism),
      (''num_clients'', PyInt (int num_clients)),
      (''num_clients_per_round'', PyInt (int num_clients_per_round)),
      (''num_rounds'', PyInt (int num_rounds))]"

text \<open>
  Lines 54-172, after both assertions have passed: the sampling rate, the default of
  \<^verbatim>\<open>delta\<close>, the lower-cased mechanism and the dispatch on it.
\<close>

definition dp_aggregator ::
  "(real \<Rightarrow> real) \<Rightarrow> accounting_utils \<Rightarrow> compression_flags \<Rightarrow> dp_flags \<Rightarrow> real \<Rightarrow> real
     \<Rightarrow> nat \<Rightarrow> nat \<Rightarrow> nat \<Rightarrow> 64 word list list \<Rightarrow> error + agg_factory \<times> pydict"
where
  "dp_aggregator np_log2 acc cf df eps clip num_clients num_clients_per_round num_rounds
       client_template =
     (if num_clients = 0 then Inl ZeroDivisionError
      else
        let sampling_rate = real num_clients_per_round / real num_clients;
            dl = delta_or_default (delta df) num_clients;
            mechanism = lower (dp_mechanism df);
            dm = get_total_dim client_template;
            params_dict = shared_params_dict eps dl clip dm sampling_rate mechanism num_clients
                            num_clients_per_round num_rounds
        in if mechanism = ''gaussian'' then
             (case get_gauss_noise_multiplier acc eps dl sampling_rate num_rounds of
                None \<Rightarrow> Inl AccountingError
              | Some noise_mult \<Rightarrow>
                  Inr (gaussian_fixed noise_mult num_clients_per_round clip,
                       dict_update params_dict [(''noise_mult'', PyFloat noise_mult)]))
           else if mechanism = ''ddgauss'' then
             (case ddgauss_derive np_log2 acc cf clip eps dl sampling_rate
                     num_clients_per_round num_rounds dm of
                Inl e \<Rightarrow> Inl e
              | Inr d \<Rightarrow>
                  Inr (ddgauss_factory cf mechanism clip client_template d,
                       dict_update params_dict (discrete_params_dict cf dm mechanism d)))
           else Inl (ValueError (''Unsupported mechanism: '' @ dp_mechanism df)))"

text \<open>
  \<^verbatim>\<open>build_aggregator\<close> (lines 36-174). The first two parameters are the float64
  logarithm of numpy and the accountant; the others are the arguments of the Python
  function. The logging calls have no effect on the result.
\<close>

definition build_aggregator ::
  "(real \<Rightarrow> real) \<Rightarrow> accounting_utils \<Rightarrow> compression_flags \<Rightarrow> dp_flags \<Rightarrow> nat \<Rightarrow> nat \<Rightarrow> nat
     \<Rightarrow> 64 word list list \<Rightarrow> error + agg_factory \<times> pydict"
where
  "build_aggregator np_log2 acc cf df num_clients num_clients_per_round num_rounds
       client_template =
     (let clip = l2_norm_clip df in
      case epsilon df of
        None \<Rightarrow> vanilla_aggregator clip
      | Some eps \<Rightarrow>
          if eps = - 1 then vanilla_aggregator clip
          else if \<not> eps > 0 then
            Inl (AssertionError
                   [Lit ''Epsilon should be positive, found '', Val (PyFloat eps), Lit ''.''])
          else
            (case clip of
               None \<Rightarrow>
                 Inl (AssertionError [Lit ''Clip must be positive, found '', Val PyNone, Lit ''.''])
             | Some c \<Rightarrow>
                 if \<not> c > 0 then
                   Inl (AssertionError
                          [Lit ''Clip must be positive, found '', Val (PyFloat c), Lit ''.''])
                 else dp_aggregator np_log2 acc cf df eps c num_clients num_clients_per_round
                        num_rounds client_template))"

section \<open>Example inputs\<close>

text \<open>
  The end-to-end example of the specification (section 8): \<open>bits = 16\<close>, \<open>beta = 0.5\<close>,
  \<open>k_stddevs = 4\<close>, \<open>clip = 1.0\<close>, \<open>epsilon = 2.0\<close>, \<open>delta = 1e-5\<close>, used below with 1000
  clients, 100 per round, 10 rounds and one tensor of shape \<open>(1000, 1000)\<close>.
\<close>

definition example_compression_flags :: compression_flags where
  "example_compression_flags = \<lparr>k_stddevs = Some 4, beta = 1 / 2, num_bits = 16\<rparr>"

definition example_dp_flags :: dp_flags where
  "example_dp_flags =
     \<lparr>l2_norm_clip = Some 1, epsilon = Some 2, delta = Some (1 / 100000),
      dp_mechanism = ''ddgauss''\<rparr>"

text \<open>
  A stand-in for the float64 logarithm, to run the model at concrete inputs: the logarithm
  rounded to the nearest multiple of \<open>2^(-47)\<close>, which is the spacing of float64 from 32
  to 64.
\<close>

definition log2_fixed47 :: "real \<Rightarrow> real" where
  "log2_fixed47 x = real_of_int (round (log 2 x * 2 ^ 47)) / 2 ^ 47"

text \<open>
  A stand-in for the accountant, to run the model at concrete inputs. Its answers are not
  those of the repository's accountant: the noise multiplier and \<open>gamma\<close> echo the
  \<open>delta\<close> they are called with, the local standard deviation is 3 and the rounded norm
  bound adds 1.
\<close>

definition stub_accountant :: accounting_utils where
  "stub_accountant =
     \<lparr>get_gauss_noise_multiplier = (\<lambda>target_eps target_delta target_sampling_rate steps.
        Some target_delta),
      ddgauss_params = (\<lambda>q eps l2_clip_norm bits num_clients dm dlt b steps k. Some (dlt, 3)),
      rounded_l2_norm_bound = (\<lambda>l2_norm_bound b dm. Some (l2_norm_bound + 1))\<rparr>"

section \<open>Properties of the dimension calculator\<close>

lemma rnd53_small: "\<bar>i\<bar> < 2 ^ 53 \<Longrightarrow> rnd53 i = i"
  by (simp add: rnd53_def)

lemma ln_2_le_1: "ln (2::real) \<le> 1"
  using ln_le_minus_one [of "2::real"] by simp

lemma log2_one_plus_lower:
  fixes t :: real
  assumes "0 \<le> t" "t \<le> 1 / 2"
  shows "t / 2 \<le> log 2 (1 + t)"
proof -
  have "t\<^sup>2 \<le> t * (1 / 2)"
    unfolding power2_eq_square using assms by (intro mult_left_mono) simp_all
  then have "t / 2 \<le> t - t\<^sup>2"
    by simp
  also have "\<dots> \<le> ln (1 + t)"
    using assms by (intro ln_one_plus_pos_lower_bound) simp_all
  finally have half: "t / 2 \<le> ln (1 + t)" .
  have nonneg: "0 \<le> ln (1 + t)"
    using assms by simp
  have "ln (1 + t) * ln 2 \<le> ln (1 + t) * 1"
    using nonneg ln_2_le_1 by (intro mult_left_mono) simp_all
  then have "ln (1 + t) \<le> ln (1 + t) / ln 2"
    by (simp add: pos_le_divide_eq)
  moreover have "log 2 (1 + t) = ln (1 + t) / ln 2"
    by (simp add: log_def)
  ultimately show ?thesis
    using half by linarith
qed

lemma log2_one_minus_upper:
  fixes s :: real
  assumes "0 \<le> s" "s < 1"
  shows "log 2 (1 - s) \<le> - s"
proof -
  have up: "ln (1 - s) \<le> - s"
    using assms by (rule ln_one_minus_pos_upper_bound)
  then have nonpos: "ln (1 - s) \<le> 0"
    using assms by simp
  have "ln (1 - s) * 1 \<le> ln (1 - s) * ln 2"
    using nonpos ln_2_le_1 by (intro mult_left_mono_neg) simp_all
  then have "ln (1 - s) / ln 2 \<le> ln (1 - s)"
    by (simp add: pos_divide_le_eq)
  moreover have "log 2 (1 - s) = ln (1 - s) / ln 2"
    by (simp add: log_def)
  ultimately show ?thesis
    using up by linarith
qed

lemma ceiling_log2_accurate:
  assumes acc: "log2_accurate j lg" and n: "1 \<le> n" "n \<le> 2 ^ j"
  shows "\<lceil>lg (real n)\<rceil> = int (ceillog2 n)"
proof -
  let ?k = "ceillog2 n"
  have pos: "0 < n"
    using n by simp
  have le: "n \<le> 2 ^ ?k"
    by (rule le_two_power_ceillog2)
  have gt: "2 ^ ?k < 2 * n"
    by (rule two_power_ceillog2_gt [OF pos])
  have kj: "?k \<le> j"
    using n by (simp add: ceillog2_le_iff [OF pos])
  have exact: "lg (2 ^ k) = real k" if "k \<le> j" for k
    using acc that by (simp add: log2_accurate_def)
  have near: "\<bar>lg (real n) - log 2 (real n)\<bar> < 1 / 2 ^ j"
  proof -
    have "1 \<le> real n" "real n \<le> 2 ^ j"
      using n by (simp_all add: of_nat_le_iff [of n "2 ^ j", symmetric] del: of_nat_le_iff)
    then show ?thesis
      using acc by (simp add: log2_accurate_def)
  qed
  show ?thesis
  proof (cases "n = 2 ^ ?k")
    case True
    then have "real n = 2 ^ ?k"
      by (metis of_nat_numeral of_nat_power)
    then have "lg (real n) = lg (2 ^ ?k)"
      by (rule arg_cong)
    also have "\<dots> = real ?k"
      by (rule exact [OF kj])
    finally have "\<lceil>lg (real n)\<rceil> = \<lceil>real ?k\<rceil>"
      by (rule arg_cong)
    then show ?thesis
      by simp
  next
    case False
    with le have lt: "n < 2 ^ ?k"
      by simp
    then have k2: "2 \<le> ?k"
    proof -
      have "?k \<noteq> 0" using lt n by (cases "?k = 0") auto
      moreover have "?k \<noteq> 1" using lt gt by (cases "?k = 1") auto
      ultimately show ?thesis by simp
    qed
    then obtain m where m: "?k = Suc m" "1 \<le> m"
      by (cases ?k) auto
    have "2 ^ m < n"
      using gt m by simp
    then have lo: "2 ^ m + 1 \<le> n"
      by simp
    have hi: "n + 1 \<le> 2 ^ ?k"
      using lt by simp
    have margin: "(1::real) / 2 ^ j \<le> 1 / 2 ^ ?k"
      using kj by (simp add: frac_le power_increasing)
    let ?t = "(1::real) / 2 ^ m"
    have t: "0 \<le> ?t" "?t \<le> 1 / 2"
    proof -
      show "0 \<le> ?t" by simp
      have "(2::real) ^ 1 \<le> 2 ^ m"
        using m by (intro power_increasing) simp_all
      then show "?t \<le> 1 / 2"
        by (simp add: frac_le)
    qed
    have "real (2 ^ m + 1) \<le> real n"
      using lo by (simp only: of_nat_le_iff)
    then have "2 ^ m * (1 + ?t) \<le> real n"
      by (simp add: algebra_simps)
    then have "log 2 (2 ^ m * (1 + ?t)) \<le> log 2 (real n)"
      by (intro log_mono) (simp_all add: pos_add_strict)
    moreover have "log 2 (2 ^ m * (1 + ?t)) = real m + log 2 (1 + ?t)"
      by (subst log_mult_pos) (simp_all add: pos_add_strict)
    moreover have "?t / 2 \<le> log 2 (1 + ?t)"
      using t by (rule log2_one_plus_lower)
    moreover have "?t / 2 = 1 / 2 ^ ?k"
      by (simp add: m)
    ultimately have below: "real m + 1 / 2 ^ ?k \<le> log 2 (real n)"
      by linarith
    let ?s = "(1::real) / 2 ^ ?k"
    have "(1::real) < 2 ^ ?k"
      using k2 by (intro one_less_power) simp_all
    then have s: "0 \<le> ?s" "?s < 1"
      by simp_all
    have "real (n + 1) \<le> real (2 ^ ?k)"
      using hi by (simp only: of_nat_le_iff)
    then have "real n \<le> 2 ^ ?k * (1 - ?s)"
      by (simp add: algebra_simps)
    then have "log 2 (real n) \<le> log 2 (2 ^ ?k * (1 - ?s))"
      using pos by (intro log_mono) simp_all
    moreover have "log 2 (2 ^ ?k * (1 - ?s)) = real ?k + log 2 (1 - ?s)"
      using s by (subst log_mult_pos) simp_all
    moreover have "log 2 (1 - ?s) \<le> - ?s"
      using s by (rule log2_one_minus_upper)
    ultimately have above: "log 2 (real n) \<le> real ?k - 1 / 2 ^ ?k"
      by linarith
    from near below margin have "real m < lg (real n)"
      by linarith
    moreover from near above margin have "lg (real n) < real ?k"
      by linarith
    ultimately have "of_int (int ?k) - 1 < lg (real n)" "lg (real n) \<le> of_int (int ?k)"
      by (simp_all add: m)
    then show ?thesis
      by (rule ceiling_unique)
  qed
qed

lemma pad_dim_ceillog2:
  assumes "log2_accurate j np_log2" "j \<le> 52" "1 \<le> n" "n \<le> 2 ^ j"
  shows "pad_dim np_log2 (PyInt (int n)) = Inr (PyFloat (2 ^ ceillog2 n))"
proof -
  have pos: "0 < n"
    using assms(3) by simp
  have "n \<le> 2 ^ 52"
    using assms(2,4) power_increasing [of j 52 "2::nat"] by simp
  then have "int n \<le> 2 ^ 52"
    by (metis of_nat_le_iff of_nat_numeral of_nat_power)
  then have small: "\<bar>int n\<bar> < 2 ^ 53"
    by simp
  have k: "ceillog2 n \<le> j"
    using assms(4) by (simp add: ceillog2_le_iff [OF pos])
  have c: "\<lceil>np_log2 (real n)\<rceil> = int (ceillog2 n)"
    using assms(1,3,4) by (rule ceiling_log2_accurate)
  have "pad_dim np_log2 (PyInt (int n)) = pad_float np_log2 (real n)"
    using small by (simp add: rnd53_small)
  also have "\<dots> = math_pow2 (int (ceillog2 n))"
    using pos by (simp add: pad_float_def c)
  also have "\<dots> = Inr (PyFloat (2 ^ ceillog2 n))"
    using k assms(2) by (simp add: math_pow2_def)
  finally show ?thesis .
qed

lemma ln_2_gt_half: "1 / 2 < ln (2::real)"
proof -
  have "exp (1 / 2 :: real) ^ 2 = exp 1"
    using exp_double [of "1 / 2 :: real"] by simp
  also have "\<dots> < 2 ^ 2"
    using exp_le by simp
  finally have "exp (1 / 2 :: real) < 2"
    by (rule power2_less_imp_less) simp
  then have "exp (1 / 2 :: real) < exp (ln 2)"
    by simp
  then show ?thesis
    by (simp only: exp_less_cancel_iff)
qed

lemma log2_above_power:
  "0 < log 2 (2 ^ k + 1) - real k \<and> log 2 (2 ^ k + 1) - real k < 2 / 2 ^ k"
proof -
  let ?t = "(1::real) / 2 ^ k"
  have t: "0 < ?t"
    by simp
  have "(2::real) ^ k + 1 = 2 ^ k * (1 + ?t)"
    by (simp add: algebra_simps)
  then have "log 2 (2 ^ k + 1) = log 2 (2 ^ k * (1 + ?t))"
    by (rule arg_cong)
  also have "\<dots> = real k + log 2 (1 + ?t)"
    using t by (subst log_mult_pos) (simp_all add: pos_add_strict)
  finally have split: "log 2 (2 ^ k + 1) - real k = log 2 (1 + ?t)"
    by simp
  have "1 < 1 + ?t"
    using t by simp
  then have "0 < ln (1 + ?t)"
    by (rule ln_gt_zero)
  then have low: "0 < log 2 (1 + ?t)"
    by (simp add: log_def)
  have "ln (1 + ?t) \<le> ?t"
    using t by (intro ln_add_one_self_le_self) simp
  moreover have "?t * 1 < ?t * (2 * ln 2)"
    using t ln_2_gt_half by (intro mult_strict_left_mono) simp_all
  ultimately have "ln (1 + ?t) < 2 * ?t * ln 2"
    by simp
  then have "ln (1 + ?t) / ln 2 < 2 * ?t"
    by (simp add: pos_divide_less_eq)
  then have "log 2 (1 + ?t) < 2 / 2 ^ k"
    by (simp add: log_def)
  with low split show ?thesis
    by simp
qed

lemma log2_fixed47_power: "log2_fixed47 (2 ^ k) = real k"
proof -
  have "log 2 (2 ^ k) * 2 ^ 47 = real_of_int (int k * 2 ^ 47)"
    by simp
  then have "round (log 2 (2 ^ k) * 2 ^ 47) = int k * 2 ^ 47"
    by (simp only: round_of_int)
  then show ?thesis
    by (simp add: log2_fixed47_def)
qed

lemma abs_div_diff:
  fixes c :: real
  assumes "0 < c"
  shows "\<bar>r / c - y\<bar> = \<bar>r - y * c\<bar> / c"
proof -
  have "r / c - y = (r - y * c) / c"
    using assms by (simp add: field_simps)
  then have "\<bar>r / c - y\<bar> = \<bar>r - y * c\<bar> / \<bar>c\<bar>"
    by (simp only: abs_divide)
  then show ?thesis
    using assms by simp
qed

lemma log2_fixed47_near: "\<bar>log2_fixed47 x - log 2 x\<bar> \<le> 1 / 2 ^ 48"
proof -
  let ?y = "log 2 x * 2 ^ 47"
  have "\<bar>real_of_int (round ?y) - ?y\<bar> \<le> 1 / 2"
    by (rule of_int_round_abs_le)
  then have "\<bar>real_of_int (round ?y) - ?y\<bar> / 2 ^ 47 \<le> (1 / 2) / 2 ^ 47"
    by (rule divide_right_mono) simp
  moreover have "\<bar>log2_fixed47 x - log 2 x\<bar> = \<bar>real_of_int (round ?y) - ?y\<bar> / 2 ^ 47"
    unfolding log2_fixed47_def by (rule abs_div_diff) simp
  ultimately show ?thesis
    by simp
qed

lemma log2_fixed47_accurate:
  assumes "j \<le> 47"
  shows "log2_accurate j log2_fixed47"
proof -
  have "(2::real) ^ j < 2 ^ 48"
    using assms by (intro power_strict_increasing) simp_all
  then have "(1::real) / 2 ^ 48 < 1 / 2 ^ j"
    by (simp add: frac_less2)
  then have "\<bar>log2_fixed47 x - log 2 x\<bar> < 1 / 2 ^ j" for x
    using log2_fixed47_near [of x] by linarith
  then show ?thesis
    by (simp add: log2_accurate_def log2_fixed47_power)
qed

lemma log2_fixed47_slip: "log2_fixed47 (2 ^ 49 + 1) = 49"
proof -
  let ?y = "log 2 (2 ^ 49 + 1) * (2::real) ^ 47"
  have b: "0 < log 2 (2 ^ 49 + 1) - real 49" "log 2 (2 ^ 49 + 1) - real 49 < 2 / 2 ^ 49"
    using log2_above_power [of 49] by blast+
  have "(log 2 (2 ^ 49 + 1) - real 49) * 2 ^ 47 < (2 / 2 ^ 49) * 2 ^ 47"
    using b(2) by (rule mult_strict_right_mono) simp
  then have up: "?y < 49 * 2 ^ 47 + 1 / 2"
    by (simp add: algebra_simps)
  have "0 < (log 2 (2 ^ 49 + 1) - real 49) * 2 ^ 47"
    using b(1) by (rule mult_pos_pos) simp
  then have low: "49 * 2 ^ 47 < ?y"
    by (simp add: algebra_simps)
  have "round ?y = 49 * 2 ^ 47"
    by (rule round_unique) (use low up in simp_all)
  then show ?thesis
    by (simp add: log2_fixed47_def)
qed

lemma log2_fixed47_accurate_46: "log2_accurate 46 log2_fixed47"
  by (rule log2_fixed47_accurate) simp

text \<open>
  Claim C5, as amended. Let the float64 logarithm be exact at the powers of two up to
  \<open>2^j\<close> and within \<open>2^(-j)\<close> of the logarithm on \<open>[1, 2^j]\<close>, for some \<open>j \<le> 52\<close>. Then for
  every integer \<open>dim\<close> with \<open>1 \<le> dim \<le> 2^j\<close>, \<^verbatim>\<open>pad_dim(dim)\<close> returns a float (not an int)
  whose value is a power of two, is at least \<open>dim\<close>, is below \<open>2 * dim\<close>, and equals \<open>dim\<close>
  when \<open>dim\<close> is a power of two. Nothing is said about larger \<open>dim\<close>, where the rounding of
  the logarithm decides.
\<close>

theorem pad_dim_power_of_two:
  assumes "log2_accurate j np_log2" "j \<le> 52" "1 \<le> n" "n \<le> 2 ^ j"
  shows "\<exists>k. pad_dim np_log2 (PyInt (int n)) = Inr (PyFloat (2 ^ k))
           \<and> real n \<le> 2 ^ k
           \<and> (2::real) ^ k < 2 * real n
           \<and> ((\<exists>i. n = 2 ^ i) \<longrightarrow> (2::real) ^ k = real n)"
proof -
  let ?k = "ceillog2 n"
  have pos: "0 < n"
    using assms(3) by simp
  have eq: "pad_dim np_log2 (PyInt (int n)) = Inr (PyFloat (2 ^ ?k))"
    using assms by (rule pad_dim_ceillog2)
  have "n \<le> 2 ^ ?k"
    by (rule le_two_power_ceillog2)
  then have "real n \<le> real (2 ^ ?k)"
    by (rule of_nat_mono)
  then have ge: "real n \<le> 2 ^ ?k"
    by simp
  have "2 ^ ?k < 2 * n"
    by (rule two_power_ceillog2_gt [OF pos])
  then have "real (2 ^ ?k) < real (2 * n)"
    by (simp only: of_nat_less_iff)
  then have lt: "(2::real) ^ ?k < 2 * real n"
    by simp
  have pow: "(2::real) ^ ?k = real n" if "n = 2 ^ i" for i
    using that by simp
  from eq ge lt pow show ?thesis
    by blast
qed

theorem pad_dim_power_of_two_witness:
  "log2_accurate 46 log2_fixed47 \<and> (46::nat) \<le> 52
   \<and> (1::nat) \<le> 8 \<and> (8::nat) \<le> 2 ^ 46 \<and> (\<exists>i. (8::nat) = 2 ^ i)
   \<and> pad_dim log2_fixed47 (PyInt (int 8)) = Inr (PyFloat 8)
   \<and> (1::nat) \<le> 5 \<and> (5::nat) \<le> 2 ^ 46
   \<and> (\<exists>k. pad_dim log2_fixed47 (PyInt (int 5)) = Inr (PyFloat (2 ^ k)) \<and> real (5::nat) \<le> 2 ^ k
          \<and> (2::real) ^ k < 2 * real (5::nat))"
proof -
  have a: "log2_accurate 46 log2_fixed47"
    by (rule log2_fixed47_accurate_46)
  have j: "(46::nat) \<le> 52" and h8: "(1::nat) \<le> 8" "(8::nat) \<le> 2 ^ 46"
    and h5: "(1::nat) \<le> 5" "(5::nat) \<le> 2 ^ 46"
    by simp_all
  have p8: "\<exists>i. (8::nat) = 2 ^ i"
    by (rule exI [of _ 3]) simp
  from pad_dim_power_of_two [OF a j h8] obtain k where
    "pad_dim log2_fixed47 (PyInt (int 8)) = Inr (PyFloat (2 ^ k))"
    "(\<exists>i. (8::nat) = 2 ^ i) \<longrightarrow> (2::real) ^ k = real (8::nat)"
    by blast
  with p8 have v8: "pad_dim log2_fixed47 (PyInt (int 8)) = Inr (PyFloat 8)"
    by simp
  from pad_dim_power_of_two [OF a j h5] obtain k where
    "pad_dim log2_fixed47 (PyInt (int 5)) = Inr (PyFloat (2 ^ k))" "real (5::nat) \<le> 2 ^ k"
    "(2::real) ^ k < 2 * real (5::nat)"
    by blast
  then have "\<exists>k. pad_dim log2_fixed47 (PyInt (int 5)) = Inr (PyFloat (2 ^ k)) \<and> real (5::nat) \<le> 2 ^ k
          \<and> (2::real) ^ k < 2 * real (5::nat)"
    by blast
  with a j h8 p8 v8 h5 show ?thesis
    by blast
qed

text \<open>
  Claim C5, as stated, says the result is an int that is at least \<open>dim\<close>, for every
  \<open>dim \<ge> 1\<close>. \<^verbatim>\<open>pad_dim(3)\<close> is the float \<open>4.0\<close>. And the logarithm of \<open>2^49 + 1\<close> lies less
  than \<open>2^(-48)\<close> above 49, half the distance from 49 to the next float64: a logarithm
  rounded to the nearest float64 is \<open>49.0\<close> there, and \<^verbatim>\<open>pad_dim(2^49 + 1)\<close> is then \<open>2^49\<close>,
  below \<open>dim\<close>.
\<close>

theorem pad_dim_int_counterexample:
  "pad_dim log2_fixed47 (PyInt 3) = Inr (PyFloat 4) \<and> \<not> is_int (PyFloat 4)
   \<and> 0 < log 2 (2 ^ 49 + 1) - (49::real) \<and> log 2 (2 ^ 49 + 1) - 49 < (1::real) / 2 ^ 48
   \<and> log2_fixed47 (2 ^ 49 + 1) = 49
   \<and> pad_dim log2_fixed47 (PyInt (2 ^ 49 + 1)) = Inr (PyFloat (2 ^ 49))
   \<and> (2::real) ^ 49 < 2 ^ 49 + 1"
proof -
  have "ceillog2 3 = 2"
    by (rule ceillog2_eqI) simp_all
  moreover have "pad_dim log2_fixed47 (PyInt (int 3)) = Inr (PyFloat (2 ^ ceillog2 3))"
    by (rule pad_dim_ceillog2 [OF log2_fixed47_accurate_46]) simp_all
  ultimately have three: "pad_dim log2_fixed47 (PyInt 3) = Inr (PyFloat 4)"
    by simp
  have at_slip: "log2_fixed47 562949953421313 = 49"
    using log2_fixed47_slip by simp
  have slip: "pad_dim log2_fixed47 (PyInt (2 ^ 49 + 1)) = Inr (PyFloat (2 ^ 49))"
    by (simp add: rnd53_def pad_float_def math_pow2_def at_slip)
  from three log2_above_power [of 49] log2_fixed47_slip slip show ?thesis
    by simp
qed

section \<open>How the aggregator is built\<close>

lemma build_aggregator_sentinel:
  assumes "epsilon df = None \<or> epsilon df = Some (- 1)"
  shows "build_aggregator np_log2 acc cf df num_clients n num_rounds tpl
           = vanilla_aggregator (l2_norm_clip df)"
  using assms by (auto simp: build_aggregator_def)

lemma build_aggregator_dp:
  assumes "epsilon df = Some eps" "0 < eps" "l2_norm_clip df = Some c" "0 < c"
  shows "build_aggregator np_log2 acc cf df num_clients n num_rounds tpl
           = dp_aggregator np_log2 acc cf df eps c num_clients n num_rounds tpl"
  using assms by (simp add: build_aggregator_def)

lemma map_of_dict_update: "map_of (dict_update d e) = map_of d ++ map_of (rev e)"
proof (induction e arbitrary: d)
  case Nil
  show ?case by (simp add: dict_update_def)
next
  case (Cons p e)
  obtain k v where p: "p = (k, v)"
    by (cases p)
  have "dict_update d (p # e) = dict_update (AList.update k v d) e"
    by (simp add: dict_update_def p)
  then have "map_of (dict_update d (p # e)) = map_of (AList.update k v d) ++ map_of (rev e)"
    by (simp add: Cons.IH)
  also have "\<dots> = (map_of d)(k \<mapsto> v) ++ map_of (rev e)"
    by (simp add: update_conv')
  also have "\<dots> = map_of d ++ map_of (rev (p # e))"
    by (simp add: p)
  finally show ?case .
qed

lemma pad_dim_Inl:
  assumes "pad_dim np_log2 v = Inl e"
  shows "e = TypeError \<or> e = OverflowError"
  using assms
  by (cases v) (auto simp: pad_float_def math_pow2_def split: if_splits)

lemma ddgauss_derive_Inl:
  assumes "ddgauss_derive np_log2 acc cf clip eps dl sr n num_rounds dm = Inl e"
  shows "e = AccountingError \<or> e = ZeroDivisionError \<or> e = TypeError \<or> e = OverflowError"
  using assms
  by (auto simp: ddgauss_derive_def Let_def
      split: sum.splits option.splits prod.splits if_splits dest: pad_dim_Inl)

lemma ddgauss_derive_Inr:
  assumes "ddgauss_derive np_log2 acc cf clip eps dl sr n num_rounds dm = Inr d"
  shows "\<exists>pdim g ls r.
           pad_dim np_log2 dm = Inr pdim
         \<and> ddgauss_params acc sr eps clip (num_bits cf) n pdim dl (beta cf) num_rounds
             (k_value (k_stddevs cf)) = Some (g, ls)
         \<and> g \<noteq> 0
         \<and> rounded_l2_norm_bound acc (clip * (1 / g)) (beta cf) pdim = Some r
         \<and> d = \<lparr>padded_dim = pdim,
                 mod_clip_lo = fst (mod_clip (num_bits cf)),
                 mod_clip_hi = snd (mod_clip (num_bits cf)),
                 gamma = g, local_stddev = ls, scale = 1 / g,
                 central_stddev = ls * sqrt (real n),
                 noise_mult_clip = ls * sqrt (real n) / clip,
                 inflated_l2 = r / (1 / g),
                 noise_mult_inflated = np_truediv (ls * sqrt (real n)) (r / (1 / g))\<rparr>"
  using assms
  by (auto simp: ddgauss_derive_def Let_def
      split: sum.splits option.splits prod.splits if_splits)

lemma dp_aggregator_Inl:
  assumes "dp_aggregator np_log2 acc cf df eps c num_clients n num_rounds tpl = Inl e"
  shows "e = ZeroDivisionError \<or> e = AccountingError \<or> e = TypeError \<or> e = OverflowError
         \<or> (e = ValueError (''Unsupported mechanism: '' @ dp_mechanism df)
              \<and> lower (dp_mechanism df) \<noteq> ''gaussian'' \<and> lower (dp_mechanism df) \<noteq> ''ddgauss''
              \<and> num_clients \<noteq> 0)"
proof (cases "num_clients = 0")
  case True
  with assms show ?thesis
    by (simp add: dp_aggregator_def)
next
  case False
  show ?thesis
  proof (cases "lower (dp_mechanism df) = ''gaussian''")
    case True
    with assms False show ?thesis
      by (auto simp: dp_aggregator_def Let_def split: option.splits)
  next
    case ng: False
    show ?thesis
    proof (cases "lower (dp_mechanism df) = ''ddgauss''")
      case True
      with assms False ng show ?thesis
        by (auto simp: dp_aggregator_def Let_def split: sum.splits dest: ddgauss_derive_Inl)
    next
      case False
      with assms ng \<open>num_clients \<noteq> 0\<close> show ?thesis
        by (simp add: dp_aggregator_def Let_def)
    qed
  qed
qed

lemma dp_aggregator_unsupported:
  assumes "num_clients \<noteq> 0"
      and "lower (dp_mechanism df) \<noteq> ''gaussian''" "lower (dp_mechanism df) \<noteq> ''ddgauss''"
  shows "dp_aggregator np_log2 acc cf df eps c num_clients n num_rounds tpl
           = Inl (ValueError (''Unsupported mechanism: '' @ dp_mechanism df))"
  using assms by (simp add: dp_aggregator_def Let_def)

lemma mod_clip_real:
  "py_real (fst (mod_clip bits)) = Some (- (2 powi (bits - 1)))"
  "py_real (snd (mod_clip bits)) = Some (2 powi (bits - 1))"
  by (simp_all add: mod_clip_def power_int_def)

lemma mod_clip_width: "2 powi (bits - 1) - (- (2 powi (bits - 1))) = (2::real) powi bits"
  using power_int_add_1 [of "2::real" "bits - 1"] by simp

lemma build_aggregator_ddgauss_Inr:
  assumes "build_aggregator np_log2 acc cf df num_clients n num_rounds tpl = Inr (agg, params)"
      and "epsilon df = Some eps" "eps \<noteq> - 1" "l2_norm_clip df = Some c"
      and "lower (dp_mechanism df) = ''ddgauss''"
  shows "\<exists>d. ddgauss_derive np_log2 acc cf c eps (delta_or_default (delta df) num_clients)
               (real n / real num_clients) n num_rounds (get_total_dim tpl) = Inr d
           \<and> agg = ddgauss_factory cf ''ddgauss'' c tpl d
           \<and> params = dict_update
                 (shared_params_dict eps (delta_or_default (delta df) num_clients) c
                    (get_total_dim tpl) (real n / real num_clients) ''ddgauss'' num_clients n
                    num_rounds)
                 (discrete_params_dict cf (get_total_dim tpl) ''ddgauss'' d)"
proof -
  have "dp_aggregator np_log2 acc cf df eps c num_clients n num_rounds tpl = Inr (agg, params)"
    using assms(1-4) by (simp add: build_aggregator_def split: if_splits)
  then show ?thesis
    using assms(5)
    by (auto simp: dp_aggregator_def Let_def split: if_splits sum.splits)
qed

lemma delta_or_default_falsy:
  assumes "dlt = None \<or> dlt = Some 0"
  shows "delta_or_default dlt num_clients = 1 / real num_clients"
  using assms by (auto simp: delta_or_default_def)

lemma delta_or_default_given:
  assumes "num_clients \<noteq> 0"
  shows "delta_or_default (Some (1 / real num_clients)) num_clients = 1 / real num_clients"
  using assms by (simp add: delta_or_default_def)

subsection \<open>The example inputs, evaluated\<close>

lemma sqrt_100: "sqrt 100 = 10"
proof -
  have "sqrt ((10::real) ^ 2) = 10"
    by simp
  then show ?thesis
    by simp
qed

lemma get_total_dim_example: "get_total_dim [[1000, 1000]] = PyInt 1000000"
  by (simp add: get_total_dim_def np_prod_def)

lemma pad_dim_example: "pad_dim log2_fixed47 (PyInt 1000000) = Inr (PyFloat 1048576)"
proof -
  have "ceillog2 1000000 = 20"
    by (rule ceillog2_eqI) simp_all
  moreover have "pad_dim log2_fixed47 (PyInt (int 1000000)) = Inr (PyFloat (2 ^ ceillog2 1000000))"
    by (rule pad_dim_ceillog2 [OF log2_fixed47_accurate_46]) simp_all
  ultimately show ?thesis
    by simp
qed

lemma lower_examples:
  "lower ''ddgauss'' = ''ddgauss''"
  "lower ''DDGauss'' = ''ddgauss''"
  "lower ''gaussian'' = ''gaussian''"
  "lower ''none'' = ''none''"
  "lower ''Laplace'' = ''laplace''"
  by (simp_all add: lower_def lower_char_def)

lemmas example_defs = example_dp_flags_def example_compression_flags_def stub_accountant_def

lemma example_ddgauss_run:
  "build_aggregator log2_fixed47 stub_accountant example_compression_flags example_dp_flags 1000 100 10
     [[1000, 1000]]
   = Inr (UnweightedMeanFactory (Some (clipping_factory 1
            (DifferentiallyPrivateFactory
               (build_ddp_query ''ddgauss'' 3 1 (1 / 2) (PyFloat 1048576) 100000 [[1000, 1000]])
               (ModularClippingSumFactory (PyInt (- 32768)) (PyInt 32768) SumFactory)))),
          [(''epsilon'', PyFloat 2), (''delta'', PyFloat (1 / 100000)),
           (''clip'', PyFloat 1), (''dim'', PyInt 1000000),
           (''sampling_rate'', PyFloat (1 / 10)), (''mechanism'', PyStr ''ddgauss''),
           (''num_clients'', PyInt 1000), (''num_clients_per_round'', PyInt 100),
           (''num_rounds'', PyInt 10), (''bits'', PyInt 16), (''beta'', PyFloat (1 / 2)),
           (''padded_dim'', PyFloat 1048576), (''gamma'', PyFloat (1 / 100000)),
           (''scale'', PyFloat 100000), (''k_stddevs'', PyFloat 4),
           (''local_stddev'', PyFloat 3), (''inflated_l2'', PyFloat (100001 / 100000)),
           (''noise_mult_clip'', PyFloat 30),
           (''noise_mult_inflated'', PyFloat (3000000 / 100001))])"
  by (simp add: build_aggregator_def dp_aggregator_def example_defs lower_examples
      delta_or_default_def get_total_dim_example pad_dim_example ddgauss_derive_def mod_clip_def
      k_value_def k_stddevs_or_4_def np_truediv_def sqrt_100 ddgauss_factory_def
      shared_params_dict_def discrete_params_dict_def dict_update_def Let_def
      del: pad_dim.simps)

lemma example_gaussian_run:
  "build_aggregator log2_fixed47 stub_accountant (example_compression_flags\<lparr>num_bits := 0\<rparr>)
     (example_dp_flags\<lparr>delta := Some 2, dp_mechanism := ''gaussian''\<rparr>) 100 200 10
     [[1000, 1000]]
   = Inr (gaussian_fixed 2 200 1,
          [(''epsilon'', PyFloat 2), (''delta'', PyFloat 2), (''clip'', PyFloat 1),
           (''dim'', PyInt 1000000), (''sampling_rate'', PyFloat 2),
           (''mechanism'', PyStr ''gaussian''), (''num_clients'', PyInt 100),
           (''num_clients_per_round'', PyInt 200), (''num_rounds'', PyInt 10),
           (''noise_mult'', PyFloat 2)])"
  by (simp add: build_aggregator_def dp_aggregator_def example_defs lower_examples
      delta_or_default_def get_total_dim_example shared_params_dict_def dict_update_def Let_def)

lemma example_premises:
  "epsilon example_dp_flags = Some 2" "(2::real) \<noteq> - 1" "(0::real) < 2"
  "l2_norm_clip example_dp_flags = Some 1" "(0::real) < 1"
  "lower (dp_mechanism example_dp_flags) = ''ddgauss''"
  by (simp_all add: example_dp_flags_def lower_examples)

subsection \<open>The derived parameters of the discrete mechanism\<close>

text \<open>
  Claim C1. Whenever \<^verbatim>\<open>build_aggregator\<close> returns on the DP path with the mechanism
  \<^verbatim>\<open>ddgauss\<close>, the accountant returned some \<open>(gamma, local_stddev)\<close> and the locals of the
  branch satisfy: \<open>mod_clip_lo = -2^(bits-1)\<close> and \<open>mod_clip_hi = 2^(bits-1)\<close>, a range of
  width \<open>2^bits\<close>; \<open>scale = 1 / gamma\<close>; \<open>central_stddev = local_stddev * sqrt
  num_clients_per_round\<close>; \<open>noise_mult_clip = central_stddev / clip\<close>;
  \<open>noise_mult_inflated = central_stddev / inflated_l2\<close> (the float division of numpy, which
  is not finite at \<open>inflated_l2 = 0\<close>). The modular stage of the returned aggregator has
  these bounds and the returned dict records these values.
\<close>

theorem ddgauss_derived_parameters:
  assumes "build_aggregator np_log2 acc cf df num_clients n num_rounds tpl = Inr (agg, params)"
      and "epsilon df = Some eps" "eps \<noteq> - 1" "l2_norm_clip df = Some c"
      and "lower (dp_mechanism df) = ''ddgauss''"
  shows "\<exists>d g ls pdim.
      ddgauss_derive np_log2 acc cf c eps (delta_or_default (delta df) num_clients)
         (real n / real num_clients) n num_rounds (get_total_dim tpl) = Inr d
    \<and> pad_dim np_log2 (get_total_dim tpl) = Inr pdim
    \<and> ddgauss_params acc (real n / real num_clients) eps c (num_bits cf) n
         pdim (delta_or_default (delta df) num_clients) (beta cf)
         num_rounds (k_value (k_stddevs cf)) = Some (g, ls)
    \<and> gamma d = g \<and> g \<noteq> 0 \<and> local_stddev d = ls
    \<and> py_real (mod_clip_lo d) = Some (- (2 powi (num_bits cf - 1)))
    \<and> py_real (mod_clip_hi d) = Some (2 powi (num_bits cf - 1))
    \<and> 2 powi (num_bits cf - 1) - (- (2 powi (num_bits cf - 1))) = (2::real) powi num_bits cf
    \<and> scale d = 1 / g
    \<and> central_stddev d = ls * sqrt (real n)
    \<and> noise_mult_clip d = central_stddev d / c
    \<and> noise_mult_inflated d =
         (if inflated_l2 d = 0 then PyNonFinite
          else PyFloat (central_stddev d / inflated_l2 d))
    \<and> ModularSum (mod_clip_lo d) (mod_clip_hi d) \<in> set (stages agg)
    \<and> map_of params ''scale'' = Some (PyFloat (scale d))
    \<and> map_of params ''noise_mult_clip'' = Some (PyFloat (noise_mult_clip d))
    \<and> map_of params ''noise_mult_inflated'' = Some (noise_mult_inflated d)"
proof -
  from build_aggregator_ddgauss_Inr [OF assms] obtain d where
    d: "ddgauss_derive np_log2 acc cf c eps (delta_or_default (delta df) num_clients)
          (real n / real num_clients) n num_rounds (get_total_dim tpl) = Inr d"
    and agg: "agg = ddgauss_factory cf ''ddgauss'' c tpl d"
    and params: "params = dict_update
                 (shared_params_dict eps (delta_or_default (delta df) num_clients) c
                    (get_total_dim tpl) (real n / real num_clients) ''ddgauss'' num_clients n
                    num_rounds)
                 (discrete_params_dict cf (get_total_dim tpl) ''ddgauss'' d)"
    by blast
  from ddgauss_derive_Inr [OF d] obtain pdim g ls r where
    pdim: "pad_dim np_log2 (get_total_dim tpl) = Inr pdim"
    and call: "ddgauss_params acc (real n / real num_clients) eps c (num_bits cf) n
         pdim (delta_or_default (delta df) num_clients) (beta cf)
         num_rounds (k_value (k_stddevs cf)) = Some (g, ls)"
    and g: "g \<noteq> 0"
    and locals: "d = \<lparr>padded_dim = pdim,
                 mod_clip_lo = fst (mod_clip (num_bits cf)),
                 mod_clip_hi = snd (mod_clip (num_bits cf)),
                 gamma = g, local_stddev = ls, scale = 1 / g,
                 central_stddev = ls * sqrt (real n),
                 noise_mult_clip = ls * sqrt (real n) / c,
                 inflated_l2 = r / (1 / g),
                 noise_mult_inflated = np_truediv (ls * sqrt (real n)) (r / (1 / g))\<rparr>"
    by blast
  have fields: "gamma d = g" "local_stddev d = ls" "scale d = 1 / g"
      "central_stddev d = ls * sqrt (real n)" "noise_mult_clip d = central_stddev d / c"
      "noise_mult_inflated d =
         (if inflated_l2 d = 0 then PyNonFinite
          else PyFloat (central_stddev d / inflated_l2 d))"
    by (simp_all add: locals np_truediv_def)
  have bounds: "py_real (mod_clip_lo d) = Some (- (2 powi (num_bits cf - 1)))"
      "py_real (mod_clip_hi d) = Some (2 powi (num_bits cf - 1))"
    by (simp_all add: locals mod_clip_real)
  have stage: "ModularSum (mod_clip_lo d) (mod_clip_hi d) \<in> set (stages agg)"
    by (simp add: agg ddgauss_factory_def)
  have dict: "map_of params ''scale'' = Some (PyFloat (scale d))"
      "map_of params ''noise_mult_clip'' = Some (PyFloat (noise_mult_clip d))"
      "map_of params ''noise_mult_inflated'' = Some (noise_mult_inflated d)"
    by (simp_all add: params map_of_dict_update discrete_params_dict_def)
  from d pdim call g fields bounds mod_clip_width [of "num_bits cf"] stage dict show ?thesis
    by blast
qed

theorem ddgauss_derived_parameters_witness:
  "build_aggregator log2_fixed47 stub_accountant example_compression_flags example_dp_flags 1000 100 10
     [[1000, 1000]]
   = Inr (UnweightedMeanFactory (Some (clipping_factory 1
            (DifferentiallyPrivateFactory
               (build_ddp_query ''ddgauss'' 3 1 (1 / 2) (PyFloat 1048576) 100000 [[1000, 1000]])
               (ModularClippingSumFactory (PyInt (- 32768)) (PyInt 32768) SumFactory)))),
          [(''epsilon'', PyFloat 2), (''delta'', PyFloat (1 / 100000)),
           (''clip'', PyFloat 1), (''dim'', PyInt 1000000),
           (''sampling_rate'', PyFloat (1 / 10)), (''mechanism'', PyStr ''ddgauss''),
           (''num_clients'', PyInt 1000), (''num_clients_per_round'', PyInt 100),
           (''num_rounds'', PyInt 10), (''bits'', PyInt 16), (''beta'', PyFloat (1 / 2)),
           (''padded_dim'', PyFloat 1048576), (''gamma'', PyFloat (1 / 100000)),
           (''scale'', PyFloat 100000), (''k_stddevs'', PyFloat 4),
           (''local_stddev'', PyFloat 3), (''inflated_l2'', PyFloat (100001 / 100000)),
           (''noise_mult_clip'', PyFloat 30),
           (''noise_mult_inflated'', PyFloat (3000000 / 100001))])
   \<and> epsilon example_dp_flags = Some 2 \<and> (2::real) \<noteq> - 1
   \<and> l2_norm_clip example_dp_flags = Some 1
   \<and> lower (dp_mechanism example_dp_flags) = ''ddgauss''
   \<and> (\<exists>d :: ddgauss_locals. gamma d = 1 / 100000 \<and> local_stddev d = 3
          \<and> mod_clip_lo d = PyInt (- 32768) \<and> mod_clip_hi d = PyInt 32768
          \<and> scale d = 100000 \<and> central_stddev d = 30 \<and> noise_mult_clip d = 30
          \<and> inflated_l2 d = 100001 / 100000
          \<and> noise_mult_inflated d = PyFloat (3000000 / 100001))"
proof -
  note run = example_ddgauss_run
  have e: "epsilon example_dp_flags = Some 2" and ne: "(2::real) \<noteq> - 1"
    and c: "l2_norm_clip example_dp_flags = Some 1"
    and m: "lower (dp_mechanism example_dp_flags) = ''ddgauss''"
    by (simp_all add: example_dp_flags_def lower_examples)
  from ddgauss_derived_parameters [OF run e ne c m] obtain d g ls where
    d: "ddgauss_derive log2_fixed47 stub_accountant example_compression_flags 1 2
          (delta_or_default (delta example_dp_flags) 1000) (real 100 / real 1000) 100 10
          (get_total_dim [[1000, 1000]]) = Inr d"
    and rest: "gamma d = g" "local_stddev d = ls" "scale d = 1 / g"
      "central_stddev d = ls * sqrt (real 100)" "noise_mult_clip d = central_stddev d / 1"
      "noise_mult_inflated d =
         (if inflated_l2 d = 0 then PyNonFinite
          else PyFloat (central_stddev d / inflated_l2 d))"
    by blast
  from d have vals: "gamma d = 1 / 100000" "local_stddev d = 3"
      "mod_clip_lo d = PyInt (- 32768)" "mod_clip_hi d = PyInt 32768"
      "inflated_l2 d = 100001 / 100000"
    by (auto simp: ddgauss_derive_def example_defs mod_clip_def delta_or_default_def Let_def
        get_total_dim_example pad_dim_example simp del: pad_dim.simps)
  have "scale d = 1 / gamma d"
    using rest(1,3) by simp
  then have sc: "scale d = 100000"
    by (simp only: vals) simp
  have central: "central_stddev d = 30"
    using rest(2,4) vals(2) by (simp add: sqrt_100)
  have nmc: "noise_mult_clip d = 30"
    using rest(5) central by simp
  have "noise_mult_inflated d = PyFloat (30 / (100001 / 100000))"
    using rest(6) by (simp only: vals central) simp
  then have nmi: "noise_mult_inflated d = PyFloat (3000000 / 100001)"
    by simp
  have "gamma d = 1 / 100000 \<and> local_stddev d = 3
          \<and> mod_clip_lo d = PyInt (- 32768) \<and> mod_clip_hi d = PyInt 32768
          \<and> scale d = 100000 \<and> central_stddev d = 30 \<and> noise_mult_clip d = 30
          \<and> inflated_l2 d = 100001 / 100000
          \<and> noise_mult_inflated d = PyFloat (3000000 / 100001)"
    using vals sc central nmc nmi by simp
  then have "\<exists>d :: ddgauss_locals. gamma d = 1 / 100000 \<and> local_stddev d = 3
          \<and> mod_clip_lo d = PyInt (- 32768) \<and> mod_clip_hi d = PyInt 32768
          \<and> scale d = 100000 \<and> central_stddev d = 30 \<and> noise_mult_clip d = 30
          \<and> inflated_l2 d = 100001 / 100000
          \<and> noise_mult_inflated d = PyFloat (3000000 / 100001)"
    by (rule exI)
  with run e ne c m show ?thesis
    by simp
qed

subsection \<open>The two noise multipliers\<close>

text \<open>
  \<^verbatim>\<open>inflated_l2\<close> is \<^verbatim>\<open>rounded_l2_norm_bound(clip * scale, beta, padded_dim) / scale\<close>. How
  it compares with \<open>clip\<close> is decided inside the accountant. If the accountant returns a
  positive \<open>gamma\<close>, a local standard deviation that is not negative and a rounded bound
  that is at least the norm it was given, then \<open>inflated_l2 \<ge> clip\<close> and the inflated
  multiplier is at most the multiplier of the clip.
\<close>

lemma inflated_multiplier_le:
  assumes "ddgauss_derive np_log2 acc cf c eps dl sr n num_rounds dm = Inr d"
      and "0 < c" "0 < gamma d" "0 \<le> local_stddev d"
      and "\<And>x pdim r. rounded_l2_norm_bound acc x (beta cf) pdim = Some r \<Longrightarrow> x \<le> r"
  shows "c \<le> inflated_l2 d \<and> central_stddev d / inflated_l2 d \<le> noise_mult_clip d"
proof -
  from ddgauss_derive_Inr [OF assms(1)] obtain pdim g ls r where
    r: "rounded_l2_norm_bound acc (c * (1 / g)) (beta cf) pdim = Some r"
    and fields: "gamma d = g" "local_stddev d = ls" "central_stddev d = ls * sqrt (real n)"
      "noise_mult_clip d = ls * sqrt (real n) / c" "inflated_l2 d = r / (1 / g)"
    by auto
  have g: "0 < g" and ls: "0 \<le> ls"
    using assms(3,4) fields by simp_all
  have "c * (1 / g) \<le> r"
    using r by (rule assms(5))
  then have "c * (1 / g) * g \<le> r * g"
    using g by (simp only: mult_le_cancel_right_pos)
  then have le: "c \<le> inflated_l2 d"
    using g by (simp add: fields)
  have "0 \<le> ls * sqrt (real n)"
    using ls by simp
  then have "ls * sqrt (real n) / inflated_l2 d \<le> ls * sqrt (real n) / c"
    using le assms(2) by (simp add: frac_le)
  with le show ?thesis
    by (simp add: fields)
qed

subsection \<open>The order of the stages\<close>

text \<open>
  Claim C2. Whenever \<^verbatim>\<open>build_aggregator\<close> returns on the DP path with the mechanism
  \<^verbatim>\<open>ddgauss\<close>, the aggregator is, from the inside out: the plain sum; the modular sum
  with lower bound \<open>mod_clip_lo\<close> and upper bound \<open>mod_clip_hi\<close>; the DP query built from
  \<open>local_stddev\<close>, \<open>clip\<close>, \<open>beta\<close>, \<open>padded_dim\<close> and \<open>scale = 1 / gamma\<close>; the L2 clipping
  with norm \<open>clip\<close>; the unweighted mean.
\<close>

theorem ddgauss_stage_order:
  assumes "build_aggregator np_log2 acc cf df num_clients n num_rounds tpl = Inr (agg, params)"
      and "epsilon df = Some eps" "eps \<noteq> - 1" "l2_norm_clip df = Some c"
      and "lower (dp_mechanism df) = ''ddgauss''"
  shows "\<exists>g ls lo hi q pdim.
      pad_dim np_log2 (get_total_dim tpl) = Inr pdim
    \<and> ddgauss_params acc (real n / real num_clients) eps c (num_bits cf) n
         pdim (delta_or_default (delta df) num_clients) (beta cf)
         num_rounds (k_value (k_stddevs cf)) = Some (g, ls)
    \<and> (lo, hi) = mod_clip (num_bits cf)
    \<and> q = build_ddp_query ''ddgauss'' ls c (beta cf) pdim (1 / g) tpl
    \<and> agg = UnweightedMeanFactory (Some (clipping_factory c
              (DifferentiallyPrivateFactory q (ModularClippingSumFactory lo hi SumFactory))))
    \<and> stages agg = [PlainSum, ModularSum lo hi, DPQuery q, L2Clip c, UnweightedMean]"
proof -
  from build_aggregator_ddgauss_Inr [OF assms] obtain d where
    d: "ddgauss_derive np_log2 acc cf c eps (delta_or_default (delta df) num_clients)
          (real n / real num_clients) n num_rounds (get_total_dim tpl) = Inr d"
    and agg: "agg = ddgauss_factory cf ''ddgauss'' c tpl d"
    by blast
  from ddgauss_derive_Inr [OF d] obtain pdim g ls r where
    pdim: "pad_dim np_log2 (get_total_dim tpl) = Inr pdim"
    and call: "ddgauss_params acc (real n / real num_clients) eps c (num_bits cf) n
         pdim (delta_or_default (delta df) num_clients) (beta cf)
         num_rounds (k_value (k_stddevs cf)) = Some (g, ls)"
    and locals: "d = \<lparr>padded_dim = pdim,
                 mod_clip_lo = fst (mod_clip (num_bits cf)),
                 mod_clip_hi = snd (mod_clip (num_bits cf)),
                 gamma = g, local_stddev = ls, scale = 1 / g,
                 central_stddev = ls * sqrt (real n),
                 noise_mult_clip = ls * sqrt (real n) / c,
                 inflated_l2 = r / (1 / g),
                 noise_mult_inflated = np_truediv (ls * sqrt (real n)) (r / (1 / g))\<rparr>"
    by blast
  let ?lo = "fst (mod_clip (num_bits cf))" and ?hi = "snd (mod_clip (num_bits cf))"
  let ?q = "build_ddp_query ''ddgauss'' ls c (beta cf) pdim (1 / g) tpl"
  have shape: "agg = UnweightedMeanFactory (Some (clipping_factory c
              (DifferentiallyPrivateFactory ?q (ModularClippingSumFactory ?lo ?hi SumFactory))))"
    by (simp add: agg ddgauss_factory_def locals)
  then have order: "stages agg = [PlainSum, ModularSum ?lo ?hi, DPQuery ?q, L2Clip c, UnweightedMean]"
    by simp
  have pair: "(?lo, ?hi) = mod_clip (num_bits cf)"
    by simp
  from pdim call pair shape order show ?thesis
    by blast
qed

theorem ddgauss_stage_order_witness:
  "\<exists>agg params.
      build_aggregator log2_fixed47 stub_accountant example_compression_flags example_dp_flags 1000 100 10
        [[1000, 1000]] = Inr (agg, params)
    \<and> stages agg =
        [PlainSum,
         ModularSum (PyInt (- 32768)) (PyInt 32768),
         DPQuery (build_ddp_query ''ddgauss'' 3 1 (1 / 2) (PyFloat 1048576) 100000
                    [[1000, 1000]]),
         L2Clip 1,
         UnweightedMean]"
proof -
  note run = example_ddgauss_run
  from ddgauss_stage_order [OF run example_premises(1,2,4,6)] obtain g ls lo hi q pdim where
    pdim: "pad_dim log2_fixed47 (get_total_dim [[1000, 1000]]) = Inr pdim"
    and call: "ddgauss_params stub_accountant (real 100 / real 1000) 2 1
             (num_bits example_compression_flags) 100 pdim
             (delta_or_default (delta example_dp_flags) 1000) (beta example_compression_flags)
             10 (k_value (k_stddevs example_compression_flags)) = Some (g, ls)"
    and bounds: "(lo, hi) = mod_clip (num_bits example_compression_flags)"
    and q: "q = build_ddp_query ''ddgauss'' ls 1 (beta example_compression_flags)
                  pdim (1 / g) [[1000, 1000]]"
    and order: "stages (UnweightedMeanFactory (Some (clipping_factory 1
            (DifferentiallyPrivateFactory
               (build_ddp_query ''ddgauss'' 3 1 (1 / 2) (PyFloat 1048576) 100000 [[1000, 1000]])
               (ModularClippingSumFactory (PyInt (- 32768)) (PyInt 32768) SumFactory)))))
          = [PlainSum, ModularSum lo hi, DPQuery q, L2Clip 1, UnweightedMean]"
    by blast
  from call have gl: "g = 1 / 100000" "ls = 3"
    by (simp_all add: example_defs delta_or_default_def)
  have ginv: "1 / g = 100000"
    unfolding gl(1) by simp
  from pdim have padded: "pdim = PyFloat 1048576"
    by (simp add: get_total_dim_example pad_dim_example del: pad_dim.simps)
  have "q = build_ddp_query ''ddgauss'' 3 1 (1 / 2) (PyFloat 1048576) 100000
                    [[1000, 1000]]"
    unfolding q ginv gl(2) padded by (simp add: example_defs)
  moreover from bounds have "lo = PyInt (- 32768)" "hi = PyInt 32768"
    by (simp_all add: example_defs mod_clip_def)
  ultimately show ?thesis
    using run order by simp
qed

subsection \<open>The assertions\<close>

text \<open>
  Claim C3, as amended. With \<open>epsilon\<close> given and not the sentinel \<open>-1\<close>,
  \<^verbatim>\<open>build_aggregator\<close> fails an assertion exactly when \<open>epsilon \<le> 0\<close>, or \<open>clip\<close> is
  missing, or \<open>clip \<le> 0\<close>. Nothing else is asserted: the bit width, the sampling rate and
  \<open>delta\<close> are not checked.
\<close>

theorem assertion_error_iff:
  assumes "epsilon df = Some eps" "eps \<noteq> - 1"
  shows "(\<exists>m. build_aggregator np_log2 acc cf df num_clients n num_rounds tpl = Inl (AssertionError m))
         \<longleftrightarrow> (eps \<le> 0 \<or> l2_norm_clip df = None \<or> (\<exists>c. l2_norm_clip df = Some c \<and> c \<le> 0))"
proof (cases "eps \<le> 0 \<or> l2_norm_clip df = None \<or> (\<exists>c. l2_norm_clip df = Some c \<and> c \<le> 0)")
  case True
  with assms have "\<exists>m. build_aggregator np_log2 acc cf df num_clients n num_rounds tpl
                        = Inl (AssertionError m)"
    by (auto simp: build_aggregator_def)
  with True show ?thesis
    by simp
next
  case False
  then obtain c where c: "l2_norm_clip df = Some c" "0 < c" and eps: "0 < eps"
    by (cases "l2_norm_clip df") auto
  have "build_aggregator np_log2 acc cf df num_clients n num_rounds tpl
          = dp_aggregator np_log2 acc cf df eps c num_clients n num_rounds tpl"
    using assms(1) eps c by (rule build_aggregator_dp)
  then have "build_aggregator np_log2 acc cf df num_clients n num_rounds tpl \<noteq> Inl (AssertionError m)"
    for m
    using dp_aggregator_Inl [of np_log2 acc cf df eps c num_clients n num_rounds tpl
        "AssertionError m"]
    by auto
  with False show ?thesis
    by simp
qed

theorem assertion_error_iff_witness:
  "epsilon (example_dp_flags\<lparr>delta := Some 2, dp_mechanism := ''gaussian''\<rparr>) = Some 2
   \<and> (2::real) \<noteq> - 1
   \<and> \<not> (\<exists>m. build_aggregator log2_fixed47 stub_accountant (example_compression_flags\<lparr>num_bits := 0\<rparr>)
              (example_dp_flags\<lparr>delta := Some 2, dp_mechanism := ''gaussian''\<rparr>) 100 200 10
              [[1000, 1000]] = Inl (AssertionError m))
   \<and> epsilon (example_dp_flags\<lparr>l2_norm_clip := Some 0\<rparr>) = Some 2
   \<and> (\<exists>m. build_aggregator log2_fixed47 stub_accountant example_compression_flags
              (example_dp_flags\<lparr>l2_norm_clip := Some 0\<rparr>) 1000 100 10 [[1000, 1000]]
            = Inl (AssertionError m))"
proof -
  let ?good = "example_dp_flags\<lparr>delta := Some 2, dp_mechanism := ''gaussian''\<rparr>"
  let ?bad = "example_dp_flags\<lparr>l2_norm_clip := Some 0\<rparr>"
  have good: "epsilon ?good = Some 2" and bad: "epsilon ?bad = Some 2"
    and ne: "(2::real) \<noteq> - 1"
    by (simp_all add: example_dp_flags_def)
  have "\<not> (\<exists>m. build_aggregator log2_fixed47 stub_accountant (example_compression_flags\<lparr>num_bits := 0\<rparr>)
              ?good 100 200 10 [[1000, 1000]] = Inl (AssertionError m))"
    using assertion_error_iff [OF good ne, of log2_fixed47 stub_accountant
        "example_compression_flags\<lparr>num_bits := 0\<rparr>" 100 200 10 "[[1000, 1000]]"]
    by (simp add: example_dp_flags_def)
  moreover have "\<exists>m. build_aggregator log2_fixed47 stub_accountant example_compression_flags
              ?bad 1000 100 10 [[1000, 1000]] = Inl (AssertionError m)"
    using assertion_error_iff [OF bad ne, of log2_fixed47 stub_accountant example_compression_flags
        1000 100 10 "[[1000, 1000]]"]
    by (simp add: example_dp_flags_def)
  ultimately show ?thesis
    using good bad ne by simp
qed

text \<open>
  Claim C3, as stated, has the construction fail an assertion whenever \<open>bits \<le> 0\<close>, the
  sampling rate is outside \<open>(0, 1]\<close> or \<open>delta\<close> is outside \<open>(0, 1]\<close>. With \<open>bits = 0\<close>,
  \<open>delta = 2\<close> and 200 of 100 clients per round (a sampling rate of 2), the \<^verbatim>\<open>gaussian\<close>
  branch hands these values to the accountant and returns when the accountant does, and
  an unknown mechanism raises the \<^verbatim>\<open>ValueError\<close>; no assertion fails.
\<close>

theorem invalid_budget_counterexample:
  "build_aggregator log2_fixed47 stub_accountant (example_compression_flags\<lparr>num_bits := 0\<rparr>)
     (example_dp_flags\<lparr>delta := Some 2, dp_mechanism := ''gaussian''\<rparr>) 100 200 10
     [[1000, 1000]]
   = Inr (gaussian_fixed 2 200 1,
          [(''epsilon'', PyFloat 2), (''delta'', PyFloat 2), (''clip'', PyFloat 1),
           (''dim'', PyInt 1000000), (''sampling_rate'', PyFloat 2),
           (''mechanism'', PyStr ''gaussian''), (''num_clients'', PyInt 100),
           (''num_clients_per_round'', PyInt 200), (''num_rounds'', PyInt 10),
           (''noise_mult'', PyFloat 2)])
   \<and> build_aggregator log2_fixed47 stub_accountant (example_compression_flags\<lparr>num_bits := 0\<rparr>)
       (example_dp_flags\<lparr>delta := Some 2, dp_mechanism := ''Laplace''\<rparr>) 100 200 10
       [[1000, 1000]]
     = Inl (ValueError ''Unsupported mechanism: Laplace'')"
proof -
  have "build_aggregator log2_fixed47 stub_accountant (example_compression_flags\<lparr>num_bits := 0\<rparr>)
       (example_dp_flags\<lparr>delta := Some 2, dp_mechanism := ''Laplace''\<rparr>) 100 200 10
       [[1000, 1000]]
     = Inl (ValueError ''Unsupported mechanism: Laplace'')"
    by (simp add: build_aggregator_def dp_aggregator_def example_dp_flags_def lower_examples
        Let_def)
  with example_gaussian_run show ?thesis
    by simp
qed

subsection \<open>The dispatch on the mechanism\<close>

text \<open>
  Claim C4, as amended. With positive \<open>epsilon\<close>, positive \<open>clip\<close> and \<open>num_clients\<close> not
  zero, \<^verbatim>\<open>build_aggregator\<close> raises the \<^verbatim>\<open>ValueError\<close> of line 172 exactly when the
  lower-cased mechanism is neither \<^verbatim>\<open>gaussian\<close> nor \<^verbatim>\<open>ddgauss\<close> (so \<^verbatim>\<open>none\<close> raises
  too), and the message is \<^verbatim>\<open>Unsupported mechanism: \<close> followed by the mechanism string
  as supplied.
\<close>

theorem unsupported_mechanism_iff:
  assumes "epsilon df = Some eps" "0 < eps" "l2_norm_clip df = Some c" "0 < c"
      and "num_clients \<noteq> 0"
  shows "((\<exists>msg. build_aggregator np_log2 acc cf df num_clients n num_rounds tpl = Inl (ValueError msg))
           \<longleftrightarrow> lower (dp_mechanism df) \<noteq> ''gaussian'' \<and> lower (dp_mechanism df) \<noteq> ''ddgauss'')
       \<and> (\<forall>msg. build_aggregator np_log2 acc cf df num_clients n num_rounds tpl = Inl (ValueError msg)
             \<longrightarrow> msg = ''Unsupported mechanism: '' @ dp_mechanism df)"
proof -
  have eq: "build_aggregator np_log2 acc cf df num_clients n num_rounds tpl
          = dp_aggregator np_log2 acc cf df eps c num_clients n num_rounds tpl"
    using assms(1-4) by (rule build_aggregator_dp)
  have only: "msg = ''Unsupported mechanism: '' @ dp_mechanism df
        \<and> lower (dp_mechanism df) \<noteq> ''gaussian'' \<and> lower (dp_mechanism df) \<noteq> ''ddgauss''"
    if "build_aggregator np_log2 acc cf df num_clients n num_rounds tpl = Inl (ValueError msg)" for msg
    using that dp_aggregator_Inl [of np_log2 acc cf df eps c num_clients n num_rounds tpl
        "ValueError msg"]
    by (simp add: eq)
  have raised: "build_aggregator np_log2 acc cf df num_clients n num_rounds tpl
          = Inl (ValueError (''Unsupported mechanism: '' @ dp_mechanism df))"
    if "lower (dp_mechanism df) \<noteq> ''gaussian''" "lower (dp_mechanism df) \<noteq> ''ddgauss''"
    using dp_aggregator_unsupported [OF assms(5) that] by (simp add: eq)
  from only raised show ?thesis
    by blast
qed

theorem unsupported_mechanism_iff_witness:
  "build_aggregator log2_fixed47 stub_accountant example_compression_flags
     (example_dp_flags\<lparr>dp_mechanism := ''Laplace''\<rparr>) 1000 100 10 [[1000, 1000]]
     = Inl (ValueError ''Unsupported mechanism: Laplace'')
   \<and> \<not> (\<exists>msg. build_aggregator log2_fixed47 stub_accountant example_compression_flags
              (example_dp_flags\<lparr>dp_mechanism := ''DDGauss''\<rparr>) 1000 100 10 [[1000, 1000]]
            = Inl (ValueError msg))"
proof -
  let ?unknown = "example_dp_flags\<lparr>dp_mechanism := ''Laplace''\<rparr>"
  let ?known = "example_dp_flags\<lparr>dp_mechanism := ''DDGauss''\<rparr>"
  have pos: "(0::real) < 2" "(0::real) < 1" and n: "(1000::nat) \<noteq> 0"
    by simp_all
  have u: "epsilon ?unknown = Some 2" "l2_norm_clip ?unknown = Some 1"
    and k: "epsilon ?known = Some 2" "l2_norm_clip ?known = Some 1"
    by (simp_all add: example_dp_flags_def)
  note unknown = unsupported_mechanism_iff [OF u(1) pos(1) u(2) pos(2) n,
      of log2_fixed47 stub_accountant example_compression_flags 100 10 "[[1000, 1000]]"]
  note known = unsupported_mechanism_iff [OF k(1) pos(1) k(2) pos(2) n,
      of log2_fixed47 stub_accountant example_compression_flags 100 10 "[[1000, 1000]]"]
  have "\<exists>msg. build_aggregator log2_fixed47 stub_accountant example_compression_flags ?unknown 1000 100 10
          [[1000, 1000]] = Inl (ValueError msg)"
    using unknown by (simp add: lower_examples)
  then have "build_aggregator log2_fixed47 stub_accountant example_compression_flags ?unknown 1000 100 10
          [[1000, 1000]] = Inl (ValueError ''Unsupported mechanism: Laplace'')"
    using unknown by auto
  moreover have "\<not> (\<exists>msg. build_aggregator log2_fixed47 stub_accountant example_compression_flags ?known
          1000 100 10 [[1000, 1000]] = Inl (ValueError msg))"
    using known by (simp add: lower_examples)
  ultimately show ?thesis
    by simp
qed

text \<open>
  Claim C4, as stated, has the mechanism \<^verbatim>\<open>none\<close> not raise. With positive \<open>epsilon\<close> and
  \<open>clip\<close> it raises like any other unknown string.
\<close>

theorem mechanism_none_counterexample:
  "build_aggregator log2_fixed47 stub_accountant example_compression_flags
     (example_dp_flags\<lparr>dp_mechanism := ''none''\<rparr>) 1000 100 10 [[1000, 1000]]
   = Inl (ValueError ''Unsupported mechanism: none'')"
  by (simp add: build_aggregator_def dp_aggregator_def example_dp_flags_def lower_examples
      Let_def)

subsection \<open>Epsilon zero and the sentinel\<close>

text \<open>
  Claim C6. \<open>epsilon = 0\<close> fails the assertion on epsilon. \<open>epsilon = -1\<close> and
  \<open>epsilon = None\<close> give the unweighted mean, alone when no clip is set and inside a
  clipping stage when a positive clip is set; a clip that is set and not positive fails
  the assertion \<^verbatim>\<open>Norm clip must be positive.\<close>
\<close>

theorem epsilon_zero_and_sentinel:
  "(epsilon df = Some 0 \<longrightarrow>
      build_aggregator np_log2 acc cf df num_clients n num_rounds tpl
        = Inl (AssertionError
                 [Lit ''Epsilon should be positive, found '', Val (PyFloat 0), Lit ''.'']))
   \<and> ((epsilon df = None \<or> epsilon df = Some (- 1)) \<and> l2_norm_clip df = None \<longrightarrow>
      build_aggregator np_log2 acc cf df num_clients n num_rounds tpl
        = Inr (UnweightedMeanFactory None, [(''clip'', PyNone)]))
   \<and> ((epsilon df = None \<or> epsilon df = Some (- 1)) \<and> l2_norm_clip df = Some c \<and> 0 < c \<longrightarrow>
      build_aggregator np_log2 acc cf df num_clients n num_rounds tpl
        = Inr (clipping_factory c (UnweightedMeanFactory None), [(''clip'', PyFloat c)]))
   \<and> ((epsilon df = None \<or> epsilon df = Some (- 1)) \<and> l2_norm_clip df = Some c \<and> c \<le> 0 \<longrightarrow>
      build_aggregator np_log2 acc cf df num_clients n num_rounds tpl
        = Inl (AssertionError [Lit ''Norm clip must be positive.'']))"
proof -
  have zero: "build_aggregator np_log2 acc cf df num_clients n num_rounds tpl
        = Inl (AssertionError
                 [Lit ''Epsilon should be positive, found '', Val (PyFloat 0), Lit ''.''])"
    if "epsilon df = Some 0"
    using that by (simp add: build_aggregator_def)
  have sentinel: "build_aggregator np_log2 acc cf df num_clients n num_rounds tpl
        = vanilla_aggregator (l2_norm_clip df)"
    if "epsilon df = None \<or> epsilon df = Some (- 1)"
    using that by (rule build_aggregator_sentinel)
  show ?thesis
    using zero sentinel by (simp add: vanilla_aggregator_def)
qed

theorem epsilon_zero_and_sentinel_witness:
  "build_aggregator log2_fixed47 stub_accountant example_compression_flags
     (example_dp_flags\<lparr>epsilon := Some 0\<rparr>) 1000 100 10 [[1000, 1000]]
     = Inl (AssertionError
              [Lit ''Epsilon should be positive, found '', Val (PyFloat 0), Lit ''.''])
   \<and> build_aggregator log2_fixed47 stub_accountant example_compression_flags
       (example_dp_flags\<lparr>epsilon := Some (- 1)\<rparr>) 1000 100 10 [[1000, 1000]]
     = Inr (clipping_factory 1 (UnweightedMeanFactory None), [(''clip'', PyFloat 1)])
   \<and> build_aggregator log2_fixed47 stub_accountant example_compression_flags
       (example_dp_flags\<lparr>epsilon := None, l2_norm_clip := None\<rparr>) 1000 100 10 [[1000, 1000]]
     = Inr (UnweightedMeanFactory None, [(''clip'', PyNone)])
   \<and> build_aggregator log2_fixed47 stub_accountant example_compression_flags
       (example_dp_flags\<lparr>epsilon := Some (- 1), l2_norm_clip := Some (- 3)\<rparr>) 1000 100 10
       [[1000, 1000]]
     = Inl (AssertionError [Lit ''Norm clip must be positive.''])"
  using
    epsilon_zero_and_sentinel [of "example_dp_flags\<lparr>epsilon := Some 0\<rparr>" log2_fixed47 stub_accountant
      example_compression_flags 1000 100 10 "[[1000, 1000]]" 1]
    epsilon_zero_and_sentinel [of "example_dp_flags\<lparr>epsilon := Some (- 1)\<rparr>" log2_fixed47 stub_accountant
      example_compression_flags 1000 100 10 "[[1000, 1000]]" 1]
    epsilon_zero_and_sentinel [of "example_dp_flags\<lparr>epsilon := None, l2_norm_clip := None\<rparr>"
      log2_fixed47 stub_accountant example_compression_flags 1000 100 10 "[[1000, 1000]]" 1]
    epsilon_zero_and_sentinel
      [of "example_dp_flags\<lparr>epsilon := Some (- 1), l2_norm_clip := Some (- 3)\<rparr>"
      log2_fixed47 stub_accountant example_compression_flags 1000 100 10 "[[1000, 1000]]" "- 3"]
  by (simp add: example_dp_flags_def)

subsection \<open>What the path without DP reads\<close>

text \<open>
  Claim C9, as amended. When \<open>epsilon\<close> is \<^verbatim>\<open>None\<close> or \<open>-1\<close>, the outcome depends on
  \<open>clip\<close> alone: not on the mechanism string, the compression flags, \<open>delta\<close>, the schedule,
  the template or the accountant. It is never the \<^verbatim>\<open>ValueError\<close> of an unsupported
  mechanism. With no clip or a positive clip the function returns the aggregator
  without DP and a dict whose only key is \<^verbatim>\<open>clip\<close>; with a clip that is set and not
  positive it fails the assertion \<^verbatim>\<open>Norm clip must be positive.\<close>
\<close>

theorem sentinel_reads_only_clip:
  assumes "epsilon df = None \<or> epsilon df = Some (- 1)"
  shows "(\<forall>np_log2' acc' cf' df' num_clients' n' num_rounds' tpl'.
            (epsilon df' = None \<or> epsilon df' = Some (- 1)) \<and> l2_norm_clip df' = l2_norm_clip df
            \<longrightarrow> build_aggregator np_log2' acc' cf' df' num_clients' n' num_rounds' tpl'
                  = build_aggregator np_log2 acc cf df num_clients n num_rounds tpl)
       \<and> (\<forall>msg. build_aggregator np_log2 acc cf df num_clients n num_rounds tpl \<noteq> Inl (ValueError msg))
       \<and> (l2_norm_clip df = None \<longrightarrow>
            build_aggregator np_log2 acc cf df num_clients n num_rounds tpl
              = Inr (UnweightedMeanFactory None, [(''clip'', PyNone)]))
       \<and> (\<forall>c. l2_norm_clip df = Some c \<and> 0 < c \<longrightarrow>
            build_aggregator np_log2 acc cf df num_clients n num_rounds tpl
              = Inr (clipping_factory c (UnweightedMeanFactory None), [(''clip'', PyFloat c)]))
       \<and> (\<forall>c. l2_norm_clip df = Some c \<and> c \<le> 0 \<longrightarrow>
            build_aggregator np_log2 acc cf df num_clients n num_rounds tpl
              = Inl (AssertionError [Lit ''Norm clip must be positive.'']))"
proof -
  have here: "build_aggregator np_log2 acc cf df num_clients n num_rounds tpl
                = vanilla_aggregator (l2_norm_clip df)"
    using assms by (rule build_aggregator_sentinel)
  have there: "build_aggregator np_log2' acc' cf' df' num_clients' n' num_rounds' tpl'
                = build_aggregator np_log2 acc cf df num_clients n num_rounds tpl"
    if "epsilon df' = None \<or> epsilon df' = Some (- 1)" "l2_norm_clip df' = l2_norm_clip df"
    for np_log2' acc' cf' df' num_clients' n' num_rounds' tpl'
    using build_aggregator_sentinel [OF that(1)] that(2) by (simp add: here)
  have no_value_error:
    "build_aggregator np_log2 acc cf df num_clients n num_rounds tpl \<noteq> Inl (ValueError msg)" for msg
    by (simp add: here vanilla_aggregator_def split: option.splits)
  have cases: "(l2_norm_clip df = None \<longrightarrow>
            build_aggregator np_log2 acc cf df num_clients n num_rounds tpl
              = Inr (UnweightedMeanFactory None, [(''clip'', PyNone)]))
       \<and> (\<forall>c. l2_norm_clip df = Some c \<and> 0 < c \<longrightarrow>
            build_aggregator np_log2 acc cf df num_clients n num_rounds tpl
              = Inr (clipping_factory c (UnweightedMeanFactory None), [(''clip'', PyFloat c)]))
       \<and> (\<forall>c. l2_norm_clip df = Some c \<and> c \<le> 0 \<longrightarrow>
            build_aggregator np_log2 acc cf df num_clients n num_rounds tpl
              = Inl (AssertionError [Lit ''Norm clip must be positive.'']))"
    by (simp add: here vanilla_aggregator_def)
  from there no_value_error cases show ?thesis
    by blast
qed

theorem sentinel_reads_only_clip_witness:
  "build_aggregator log2_fixed47 stub_accountant example_compression_flags
     (example_dp_flags\<lparr>epsilon := Some (- 1), dp_mechanism := ''Laplace''\<rparr>) 1000 100 10
     [[1000, 1000]]
     = Inr (clipping_factory 1 (UnweightedMeanFactory None), [(''clip'', PyFloat 1)])
   \<and> build_aggregator (\<lambda>x. 0)
       \<lparr>get_gauss_noise_multiplier = (\<lambda>a b c d. None),
        ddgauss_params = (\<lambda>a b c d e f g h i j. None),
        rounded_l2_norm_bound = (\<lambda>a b c. None)\<rparr>
       \<lparr>k_stddevs = None, beta = 7, num_bits = - 5\<rparr>
       \<lparr>l2_norm_clip = Some 1, epsilon = None, delta = Some 9, dp_mechanism = ''ddgauss''\<rparr>
       0 50 0 []
     = Inr (clipping_factory 1 (UnweightedMeanFactory None), [(''clip'', PyFloat 1)])
   \<and> build_aggregator log2_fixed47 stub_accountant example_compression_flags
       (example_dp_flags\<lparr>epsilon := None, l2_norm_clip := None\<rparr>) 1000 100 10 [[1000, 1000]]
     = Inr (UnweightedMeanFactory None, [(''clip'', PyNone)])
   \<and> build_aggregator log2_fixed47 stub_accountant example_compression_flags
       (example_dp_flags\<lparr>epsilon := None, l2_norm_clip := Some (- 2)\<rparr>) 1000 100 10
       [[1000, 1000]]
     = Inl (AssertionError [Lit ''Norm clip must be positive.''])"
proof -
  let ?df = "example_dp_flags\<lparr>epsilon := Some (- 1), dp_mechanism := ''Laplace''\<rparr>"
  let ?unclipped = "example_dp_flags\<lparr>epsilon := None, l2_norm_clip := None\<rparr>"
  let ?negative = "example_dp_flags\<lparr>epsilon := None, l2_norm_clip := Some (- 2)\<rparr>"
  have s: "epsilon ?df = None \<or> epsilon ?df = Some (- 1)"
    and su: "epsilon ?unclipped = None \<or> epsilon ?unclipped = Some (- 1)"
    and sn: "epsilon ?negative = None \<or> epsilon ?negative = Some (- 1)"
    by (simp_all add: example_dp_flags_def)
  note inst = sentinel_reads_only_clip [OF s, of log2_fixed47 stub_accountant example_compression_flags
      1000 100 10 "[[1000, 1000]]"]
  have here: "build_aggregator log2_fixed47 stub_accountant example_compression_flags ?df 1000 100 10
      [[1000, 1000]]
      = Inr (clipping_factory 1 (UnweightedMeanFactory None), [(''clip'', PyFloat 1)])"
    using inst by (simp add: example_dp_flags_def)
  have "build_aggregator (\<lambda>x. 0)
       \<lparr>get_gauss_noise_multiplier = (\<lambda>a b c d. None),
        ddgauss_params = (\<lambda>a b c d e f g h i j. None),
        rounded_l2_norm_bound = (\<lambda>a b c. None)\<rparr>
       \<lparr>k_stddevs = None, beta = 7, num_bits = - 5\<rparr>
       \<lparr>l2_norm_clip = Some 1, epsilon = None, delta = Some 9, dp_mechanism = ''ddgauss''\<rparr>
       0 50 0 []
      = build_aggregator log2_fixed47 stub_accountant example_compression_flags ?df 1000 100 10
          [[1000, 1000]]"
    using inst by (simp add: example_dp_flags_def)
  with here have there: "build_aggregator (\<lambda>x. 0)
       \<lparr>get_gauss_noise_multiplier = (\<lambda>a b c d. None),
        ddgauss_params = (\<lambda>a b c d e f g h i j. None),
        rounded_l2_norm_bound = (\<lambda>a b c. None)\<rparr>
       \<lparr>k_stddevs = None, beta = 7, num_bits = - 5\<rparr>
       \<lparr>l2_norm_clip = Some 1, epsilon = None, delta = Some 9, dp_mechanism = ''ddgauss''\<rparr>
       0 50 0 []
      = Inr (clipping_factory 1 (UnweightedMeanFactory None), [(''clip'', PyFloat 1)])"
    by simp
  have unclipped: "build_aggregator log2_fixed47 stub_accountant example_compression_flags ?unclipped
      1000 100 10 [[1000, 1000]] = Inr (UnweightedMeanFactory None, [(''clip'', PyNone)])"
    using sentinel_reads_only_clip [OF su, of log2_fixed47 stub_accountant example_compression_flags
      1000 100 10 "[[1000, 1000]]"]
    by (simp add: example_dp_flags_def)
  have negative: "build_aggregator log2_fixed47 stub_accountant example_compression_flags ?negative
      1000 100 10 [[1000, 1000]] = Inl (AssertionError [Lit ''Norm clip must be positive.''])"
    using sentinel_reads_only_clip [OF sn, of log2_fixed47 stub_accountant example_compression_flags
      1000 100 10 "[[1000, 1000]]"]
    by (simp add: example_dp_flags_def)
  from here there unclipped negative show ?thesis
    by (intro conjI)
qed

text \<open>
  Claim C9, as stated, has the function return for every input with the sentinel. With
  \<open>epsilon = -1\<close> and \<open>clip = 0\<close> it fails the assertion on the clip instead.
\<close>

theorem sentinel_returns_counterexample:
  "build_aggregator log2_fixed47 stub_accountant example_compression_flags
     (example_dp_flags\<lparr>epsilon := Some (- 1), l2_norm_clip := Some 0\<rparr>) 1000 100 10
     [[1000, 1000]]
   = Inl (AssertionError [Lit ''Norm clip must be positive.''])"
  by (simp add: build_aggregator_def vanilla_aggregator_def example_dp_flags_def)

subsection \<open>The default of delta\<close>

text \<open>
  Claim C10. On the DP path (both assertions passed and \<open>num_clients\<close> not zero), a
  \<open>delta\<close> that is \<^verbatim>\<open>None\<close> or \<open>0\<close> is not rejected: the construction is the one for
  \<open>delta = 1 / num_clients\<close>. That value is the \<open>delta\<close> the accountant is called with,
  in the \<^verbatim>\<open>gaussian\<close> branch and in the \<^verbatim>\<open>ddgauss\<close> branch, and it is the value recorded
  under \<^verbatim>\<open>delta\<close> in the returned dict.
\<close>

theorem delta_default:
  assumes "epsilon df = Some eps" "0 < eps" "l2_norm_clip df = Some c" "0 < c"
      and "num_clients \<noteq> 0"
      and "delta df = None \<or> delta df = Some 0"
  shows "build_aggregator np_log2 acc cf df num_clients n num_rounds tpl
           = build_aggregator np_log2 acc cf (df\<lparr>delta := Some (1 / real num_clients)\<rparr>) num_clients n
               num_rounds tpl
       \<and> (\<forall>agg params.
             build_aggregator np_log2 acc cf df num_clients n num_rounds tpl = Inr (agg, params)
             \<longrightarrow> map_of params ''delta'' = Some (PyFloat (1 / real num_clients)))
       \<and> (lower (dp_mechanism df) = ''gaussian'' \<longrightarrow>
             build_aggregator np_log2 acc cf df num_clients n num_rounds tpl
               = (case get_gauss_noise_multiplier acc eps (1 / real num_clients)
                         (real n / real num_clients) num_rounds of
                    None \<Rightarrow> Inl AccountingError
                  | Some noise_mult \<Rightarrow>
                      Inr (gaussian_fixed noise_mult n c,
                           dict_update
                             (shared_params_dict eps (1 / real num_clients) c
                                (get_total_dim tpl) (real n / real num_clients) ''gaussian''
                                num_clients n num_rounds)
                             [(''noise_mult'', PyFloat noise_mult)])))
       \<and> (lower (dp_mechanism df) = ''ddgauss'' \<longrightarrow>
             (\<forall>pdim.
                 pad_dim np_log2 (get_total_dim tpl) = Inr pdim
                 \<and> ddgauss_params acc (real n / real num_clients) eps c (num_bits cf) n
                       pdim (1 / real num_clients) (beta cf) num_rounds
                       (k_value (k_stddevs cf)) = None
                 \<longrightarrow> build_aggregator np_log2 acc cf df num_clients n num_rounds tpl
                       = Inl AccountingError)
           \<and> (\<forall>agg params.
                 build_aggregator np_log2 acc cf df num_clients n num_rounds tpl = Inr (agg, params)
                 \<longrightarrow> (\<exists>pdim g ls.
                        pad_dim np_log2 (get_total_dim tpl) = Inr pdim
                      \<and> ddgauss_params acc (real n / real num_clients) eps c (num_bits cf) n
                          pdim (1 / real num_clients) (beta cf)
                          num_rounds (k_value (k_stddevs cf)) = Some (g, ls)
                      \<and> map_of params ''gamma'' = Some (PyFloat g)
                      \<and> map_of params ''local_stddev'' = Some (PyFloat ls))))"
proof -
  let ?df' = "df\<lparr>delta := Some (1 / real num_clients)\<rparr>"
  let ?run = "build_aggregator np_log2 acc cf df num_clients n num_rounds tpl"
  have dl: "delta_or_default (delta df) num_clients = 1 / real num_clients"
    using assms(6) by (rule delta_or_default_falsy)
  have dl': "delta_or_default (Some (1 / real num_clients)) num_clients = 1 / real num_clients"
    using assms(5) by (rule delta_or_default_given)
  have run: "?run = dp_aggregator np_log2 acc cf df eps c num_clients n num_rounds tpl"
    using assms(1-4) by (rule build_aggregator_dp)
  have "build_aggregator np_log2 acc cf ?df' num_clients n num_rounds tpl
          = dp_aggregator np_log2 acc cf ?df' eps c num_clients n num_rounds tpl"
    using assms(1-4) by (simp add: build_aggregator_def)
  also have "\<dots> = dp_aggregator np_log2 acc cf df eps c num_clients n num_rounds tpl"
    by (simp add: dp_aggregator_def dl dl' Let_def)
  finally have same: "?run = build_aggregator np_log2 acc cf ?df' num_clients n num_rounds tpl"
    by (simp add: run)
  have gaussian: "?run
               = (case get_gauss_noise_multiplier acc eps (1 / real num_clients)
                         (real n / real num_clients) num_rounds of
                    None \<Rightarrow> Inl AccountingError
                  | Some noise_mult \<Rightarrow>
                      Inr (gaussian_fixed noise_mult n c,
                           dict_update
                             (shared_params_dict eps (1 / real num_clients) c
                                (get_total_dim tpl) (real n / real num_clients) ''gaussian''
                                num_clients n num_rounds)
                             [(''noise_mult'', PyFloat noise_mult)]))"
    if "lower (dp_mechanism df) = ''gaussian''"
    using that assms(5) by (simp add: run dp_aggregator_def dl Let_def)
  have ddgauss_run: "?run
               = (case ddgauss_derive np_log2 acc cf c eps (1 / real num_clients)
                         (real n / real num_clients) n num_rounds (get_total_dim tpl) of
                    Inl e \<Rightarrow> Inl e
                  | Inr d \<Rightarrow>
                      Inr (ddgauss_factory cf ''ddgauss'' c tpl d,
                           dict_update
                             (shared_params_dict eps (1 / real num_clients) c
                                (get_total_dim tpl) (real n / real num_clients) ''ddgauss''
                                num_clients n num_rounds)
                             (discrete_params_dict cf (get_total_dim tpl) ''ddgauss'' d)))"
    if "lower (dp_mechanism df) = ''ddgauss''"
    using that assms(5) by (simp add: run dp_aggregator_def dl Let_def)
  have recorded: "map_of params ''delta'' = Some (PyFloat (1 / real num_clients))"
    if "?run = Inr (agg, params)" for agg params
  proof -
    from that have "dp_aggregator np_log2 acc cf df eps c num_clients n num_rounds tpl
                      = Inr (agg, params)"
      by (simp add: run)
    then show ?thesis
      by (auto simp: dp_aggregator_def dl Let_def map_of_dict_update shared_params_dict_def
          discrete_params_dict_def split: if_splits option.splits sum.splits)
  qed
  have refused: "?run = Inl AccountingError"
    if "lower (dp_mechanism df) = ''ddgauss''"
      and "pad_dim np_log2 (get_total_dim tpl) = Inr pdim"
      and "ddgauss_params acc (real n / real num_clients) eps c (num_bits cf) n
             pdim (1 / real num_clients) (beta cf) num_rounds
             (k_value (k_stddevs cf)) = None"
    for pdim
    using that(2,3)
    by (simp add: ddgauss_run [OF that(1)] ddgauss_derive_def Let_def split: prod.splits)
  have passed: "\<exists>pdim g ls.
        pad_dim np_log2 (get_total_dim tpl) = Inr pdim
      \<and> ddgauss_params acc (real n / real num_clients) eps c (num_bits cf) n
          pdim (1 / real num_clients) (beta cf)
          num_rounds (k_value (k_stddevs cf)) = Some (g, ls)
      \<and> map_of params ''gamma'' = Some (PyFloat g)
      \<and> map_of params ''local_stddev'' = Some (PyFloat ls)"
    if mech: "lower (dp_mechanism df) = ''ddgauss''" and ok: "?run = Inr (agg, params)"
    for agg params
  proof -
    from ok obtain d where
      d: "ddgauss_derive np_log2 acc cf c eps (1 / real num_clients) (real n / real num_clients) n
            num_rounds (get_total_dim tpl) = Inr d"
      and params: "params = dict_update
                             (shared_params_dict eps (1 / real num_clients) c
                                (get_total_dim tpl) (real n / real num_clients) ''ddgauss''
                                num_clients n num_rounds)
                             (discrete_params_dict cf (get_total_dim tpl) ''ddgauss'' d)"
      by (auto simp: ddgauss_run [OF mech] split: sum.splits)
    from ddgauss_derive_Inr [OF d] obtain pdim g ls where
      pdim: "pad_dim np_log2 (get_total_dim tpl) = Inr pdim"
      and call: "ddgauss_params acc (real n / real num_clients) eps c (num_bits cf) n
          pdim (1 / real num_clients) (beta cf)
          num_rounds (k_value (k_stddevs cf)) = Some (g, ls)"
      and fields: "gamma d = g" "local_stddev d = ls"
      by auto
    have "map_of params ''gamma'' = Some (PyFloat g)"
        "map_of params ''local_stddev'' = Some (PyFloat ls)"
      by (simp_all add: params map_of_dict_update discrete_params_dict_def fields)
    with pdim call show ?thesis
      by blast
  qed
  from same recorded gaussian refused passed show ?thesis
    by blast
qed

theorem delta_default_witness:
  "build_aggregator log2_fixed47 stub_accountant example_compression_flags
     (example_dp_flags\<lparr>delta := None, dp_mechanism := ''gaussian''\<rparr>) 1000 100 10
     [[1000, 1000]]
     = Inr (gaussian_fixed (1 / 1000) 100 1,
            [(''epsilon'', PyFloat 2), (''delta'', PyFloat (1 / 1000)), (''clip'', PyFloat 1),
             (''dim'', PyInt 1000000), (''sampling_rate'', PyFloat (1 / 10)),
             (''mechanism'', PyStr ''gaussian''), (''num_clients'', PyInt 1000),
             (''num_clients_per_round'', PyInt 100), (''num_rounds'', PyInt 10),
             (''noise_mult'', PyFloat (1 / 1000))])
   \<and> build_aggregator log2_fixed47 stub_accountant example_compression_flags
       (example_dp_flags\<lparr>delta := Some 0\<rparr>) 1000 100 10 [[1000, 1000]]
     = build_aggregator log2_fixed47 stub_accountant example_compression_flags
         (example_dp_flags\<lparr>delta := Some (1 / 1000)\<rparr>) 1000 100 10 [[1000, 1000]]
   \<and> (\<exists>agg params.
          build_aggregator log2_fixed47 stub_accountant example_compression_flags
            (example_dp_flags\<lparr>delta := None\<rparr>) 1000 100 10 [[1000, 1000]]
            = Inr (agg, params)
        \<and> map_of params ''delta'' = Some (PyFloat (1 / 1000))
        \<and> map_of params ''gamma'' = Some (PyFloat (1 / 1000)))"
proof -
  let ?unset = "example_dp_flags\<lparr>delta := None, dp_mechanism := ''gaussian''\<rparr>"
  let ?zero = "example_dp_flags\<lparr>delta := Some 0\<rparr>"
  have pos: "(0::real) < 2" "(0::real) < 1" and n: "(1000::nat) \<noteq> 0"
    by simp_all
  have u: "epsilon ?unset = Some 2" "l2_norm_clip ?unset = Some 1"
      "delta ?unset = None \<or> delta ?unset = Some 0"
    and z: "epsilon ?zero = Some 2" "l2_norm_clip ?zero = Some 1"
      "delta ?zero = None \<or> delta ?zero = Some 0"
    by (simp_all add: example_dp_flags_def)
  note unset = delta_default [OF u(1) pos(1) u(2) pos(2) n u(3),
      of log2_fixed47 stub_accountant example_compression_flags 100 10 "[[1000, 1000]]"]
  note zero = delta_default [OF z(1) pos(1) z(2) pos(2) n z(3),
      of log2_fixed47 stub_accountant example_compression_flags 100 10 "[[1000, 1000]]"]
  have m: "lower (dp_mechanism ?unset) = ''gaussian''"
    by (simp add: example_dp_flags_def lower_examples)
  from unset m have
    "build_aggregator log2_fixed47 stub_accountant example_compression_flags ?unset 1000 100 10
       [[1000, 1000]]
     = (case get_gauss_noise_multiplier stub_accountant 2 (1 / real 1000)
               (real 100 / real 1000) 10 of
          None \<Rightarrow> Inl AccountingError
        | Some noise_mult \<Rightarrow>
            Inr (gaussian_fixed noise_mult 100 1,
                 dict_update
                   (shared_params_dict 2 (1 / real 1000) 1 (get_total_dim [[1000, 1000]])
                      (real 100 / real 1000) ''gaussian'' 1000 100 10)
                   [(''noise_mult'', PyFloat noise_mult)]))"
    by blast
  then have first: "build_aggregator log2_fixed47 stub_accountant example_compression_flags ?unset 1000 100 10
       [[1000, 1000]]
     = Inr (gaussian_fixed (1 / 1000) 100 1,
            [(''epsilon'', PyFloat 2), (''delta'', PyFloat (1 / 1000)), (''clip'', PyFloat 1),
             (''dim'', PyInt 1000000), (''sampling_rate'', PyFloat (1 / 10)),
             (''mechanism'', PyStr ''gaussian''), (''num_clients'', PyInt 1000),
             (''num_clients_per_round'', PyInt 100), (''num_rounds'', PyInt 10),
             (''noise_mult'', PyFloat (1 / 1000))])"
    by (simp add: stub_accountant_def shared_params_dict_def dict_update_def get_total_dim_example)
  from zero have "build_aggregator log2_fixed47 stub_accountant example_compression_flags ?zero 1000 100 10
       [[1000, 1000]]
     = build_aggregator log2_fixed47 stub_accountant example_compression_flags
         (?zero\<lparr>delta := Some (1 / real 1000)\<rparr>) 1000 100 10 [[1000, 1000]]"
    by blast
  then have second: "build_aggregator log2_fixed47 stub_accountant example_compression_flags ?zero 1000 100 10
       [[1000, 1000]]
     = build_aggregator log2_fixed47 stub_accountant example_compression_flags
         (example_dp_flags\<lparr>delta := Some (1 / 1000)\<rparr>) 1000 100 10 [[1000, 1000]]"
    by simp
  let ?none = "example_dp_flags\<lparr>delta := None\<rparr>"
  let ?nrun = "build_aggregator log2_fixed47 stub_accountant example_compression_flags ?none 1000 100 10
      [[1000, 1000]]"
  have dn: "epsilon ?none = Some 2" "l2_norm_clip ?none = Some 1"
      "delta ?none = None \<or> delta ?none = Some 0"
    and mn: "lower (dp_mechanism ?none) = ''ddgauss''"
    by (simp_all add: example_dp_flags_def lower_examples)
  note dflt = delta_default [OF dn(1) pos(1) dn(2) pos(2) n dn(3),
      of log2_fixed47 stub_accountant example_compression_flags 100 10 "[[1000, 1000]]"]
  have "?nrun = build_aggregator log2_fixed47 stub_accountant example_compression_flags
                 (?none\<lparr>delta := Some (1 / real 1000)\<rparr>) 1000 100 10 [[1000, 1000]]"
    using dflt by blast
  also have "\<exists>agg params. \<dots> = Inr (agg, params)"
    by (simp add: build_aggregator_def dp_aggregator_def example_defs lower_examples
      delta_or_default_def ddgauss_derive_def mod_clip_def Let_def get_total_dim_example
      pad_dim_example del: pad_dim.simps)
  finally obtain agg params where ok: "?nrun = Inr (agg, params)"
    by blast
  from dflt ok have recorded: "map_of params ''delta'' = Some (PyFloat (1 / real 1000))"
    by blast
  from dflt mn ok obtain pdim g ls where
    call: "ddgauss_params stub_accountant (real 100 / real 1000) 2 1
             (num_bits example_compression_flags) 100 pdim
             (1 / real 1000) (beta example_compression_flags) 10
             (k_value (k_stddevs example_compression_flags)) = Some (g, ls)"
    and gamma_rec: "map_of params ''gamma'' = Some (PyFloat g)"
    by blast
  from call have "g = 1 / 1000"
    by (simp add: stub_accountant_def)
  with gamma_rec recorded ok have third: "\<exists>agg params.
          build_aggregator log2_fixed47 stub_accountant example_compression_flags
            (example_dp_flags\<lparr>delta := None\<rparr>) 1000 100 10 [[1000, 1000]]
            = Inr (agg, params)
        \<and> map_of params ''delta'' = Some (PyFloat (1 / 1000))
        \<and> map_of params ''gamma'' = Some (PyFloat (1 / 1000))"
    by simp
  from first second third show ?thesis
    by (intro conjI)
qed

section \<open>Properties of the modular reduction\<close>

text \<open>
  Claim C8. With \<open>lo < hi\<close>, the reduction \<open>v \<mapsto> ((v - lo) mod (hi - lo)) + lo\<close> leaves
  every \<open>v\<close> of \<open>[lo, hi)\<close> unchanged, and gives the same result at \<open>v\<close> and at
  \<open>v + k * (hi - lo)\<close> for all integers \<open>v\<close> and \<open>k\<close>; its result lies in \<open>[lo, hi)\<close>, so
  applying it twice is applying it once.
\<close>

theorem modular_reduce_idempotent_periodic:
  assumes "lo < hi"
  shows "(lo \<le> v \<and> v < hi \<longrightarrow> modular_reduce lo hi v = v)
       \<and> modular_reduce lo hi (w + k * (hi - lo)) = modular_reduce lo hi w
       \<and> lo \<le> modular_reduce lo hi w \<and> modular_reduce lo hi w < hi
       \<and> modular_reduce lo hi (modular_reduce lo hi w) = modular_reduce lo hi w"
proof -
  have width: "0 < hi - lo"
    using assms by simp
  have fixed: "modular_reduce lo hi x = x" if "lo \<le> x" "x < hi" for x
    using that by (simp add: modular_reduce_def)
  have "(w + k * (hi - lo) - lo) mod (hi - lo) = (w - lo + k * (hi - lo)) mod (hi - lo)"
    by (simp add: algebra_simps)
  also have "\<dots> = (w - lo) mod (hi - lo)"
    by simp
  finally have period: "modular_reduce lo hi (w + k * (hi - lo)) = modular_reduce lo hi w"
    by (simp add: modular_reduce_def)
  have lower: "lo \<le> modular_reduce lo hi w"
    using pos_mod_sign [OF width, of "w - lo"] by (simp add: modular_reduce_def)
  have upper: "modular_reduce lo hi w < hi"
    using pos_mod_bound [OF width, of "w - lo"] by (simp add: modular_reduce_def)
  from fixed [of v] period lower upper fixed [OF lower upper] show ?thesis
    by blast
qed

theorem modular_reduce_idempotent_periodic_witness:
  "(-8::int) < 8
   \<and> modular_reduce (-8) 8 (-3) = -3
   \<and> modular_reduce (-8) 8 (-3 + 5 * (8 - (-8))) = modular_reduce (-8) 8 (-3)
   \<and> modular_reduce (-8) 8 (-9) = 7
   \<and> modular_reduce (-8) 8 8 = -8"
  using modular_reduce_idempotent_periodic [of "-8" 8 "-3" "-3" 5]
  by (simp add: modular_reduce_def)

end
